theory Spec2Isabelle
  imports Complex_Main "HOL-Library.Sublist"
begin

section \<open>Python strings and values\<close>

text \<open>
  Strings are lists of 8-bit characters. The embedding is exact for ASCII text; the few
  non-ASCII literals of the program (emoji in canned answers) are carried as their UTF-8
  bytes. \<open>py_lower\<close>, \<open>py_strip\<close> and the other string functions below are Python's
  \<^verbatim>\<open>str.lower\<close>, \<^verbatim>\<open>str.strip\<close>, \<^verbatim>\<open>in\<close>, \<^verbatim>\<open>str.split\<close>, \<^verbatim>\<open>str.replace\<close> and
  \<^verbatim>\<open>str.lstrip(chars)\<close> on such text.
\<close>

definition lower_char :: "char \<Rightarrow> char" where
  "lower_char c =
     (case map_of (zip ''ABCDEFGHIJKLMNOPQRSTUVWXYZ'' ''abcdefghijklmnopqrstuvwxyz'') c of
        Some d \<Rightarrow> d
      | None \<Rightarrow> c)"

definition py_lower :: "string \<Rightarrow> string" where
  "py_lower s = map lower_char s"

definition is_space :: "char \<Rightarrow> bool" where
  "is_space c = (c \<in> set [CHR '' '', CHR 0x09, CHR 0x0A, CHR 0x0B, CHR 0x0C, CHR 0x0D,
                           CHR 0x1C, CHR 0x1D, CHR 0x1E, CHR 0x1F])"

definition py_strip :: "string \<Rightarrow> string" where
  "py_strip s = rev (dropWhile is_space (rev (dropWhile is_space s)))"

definition lstrip_chars :: "string \<Rightarrow> string \<Rightarrow> string" where
  "lstrip_chars chars s = dropWhile (\<lambda>c. c \<in> set chars) s"

fun py_in :: "string \<Rightarrow> string \<Rightarrow> bool" where
  "py_in sub [] = (sub = [])"
| "py_in sub (c # cs) = (prefix sub (c # cs) \<or> py_in sub cs)"

definition any_in :: "string list \<Rightarrow> string \<Rightarrow> bool" where
  "any_in subs s = list_ex (\<lambda>sub. py_in sub s) subs"

text \<open>\<open>after_first sep s\<close> is \<^verbatim>\<open>s.split(sep, 1)[1]\<close> and \<open>before_first sep s\<close> is
  \<^verbatim>\<open>s.split(sep, 1)[0]\<close>, for a non-empty separator that occurs in \<open>s\<close>; when it does
  not occur the first is empty and the second is \<open>s\<close>.\<close>

fun after_first :: "string \<Rightarrow> string \<Rightarrow> string" where
  "after_first sep [] = []"
| "after_first sep (c # cs) =
     (if prefix sep (c # cs) then drop (length sep) (c # cs) else after_first sep cs)"

fun before_first :: "string \<Rightarrow> string \<Rightarrow> string" where
  "before_first sep [] = []"
| "before_first sep (c # cs) =
     (if prefix sep (c # cs) then [] else c # before_first sep cs)"

text \<open>\<^verbatim>\<open>s.replace(old, '')\<close> for a non-empty \<open>old\<close>: every non-overlapping occurrence,
  scanning from the left, is removed. The fuel is the length of the text.\<close>

fun remove_all :: "nat \<Rightarrow> string \<Rightarrow> string \<Rightarrow> string" where
  "remove_all 0 old s = s"
| "remove_all (Suc n) old [] = []"
| "remove_all (Suc n) old (c # cs) =
     (if old \<noteq> [] \<and> prefix old (c # cs) then remove_all n old (drop (length old) (c # cs))
      else c # remove_all n old cs)"

definition py_remove :: "string \<Rightarrow> string \<Rightarrow> string" where
  "py_remove old s = remove_all (length s) old s"

text \<open>\<^verbatim>\<open>s.split('\n')[0]\<close>: the text before the first line feed.\<close>

definition first_line :: "string \<Rightarrow> string" where
  "first_line s = takeWhile (\<lambda>c. c \<noteq> CHR 0x0A) s"

text \<open>\<^verbatim>\<open>[p.strip() for p in raw.split(',') if p.strip()]\<close>.\<close>

fun split_on :: "char \<Rightarrow> string \<Rightarrow> string \<Rightarrow> string list" where
  "split_on sep acc [] = [rev acc]"
| "split_on sep acc (c # cs) =
     (if c = sep then rev acc # split_on sep [] cs else split_on sep (c # acc) cs)"

definition comma_items :: "string \<Rightarrow> string list" where
  "comma_items raw = filter (\<lambda>p. p \<noteq> []) (map py_strip (split_on (CHR '','') [] raw))"

text \<open>Decimal notation of an integer, \<^verbatim>\<open>str(n)\<close>.\<close>

definition digit_char :: "nat \<Rightarrow> char" where
  "digit_char d = ''0123456789'' ! (d mod 10)"

fun nat_digits :: "nat \<Rightarrow> nat \<Rightarrow> string" where
  "nat_digits 0 n = []"
| "nat_digits (Suc fuel) n =
     (if n < 10 then [digit_char n] else nat_digits fuel (n div 10) @ [digit_char (n mod 10)])"

definition str_int :: "int \<Rightarrow> string" where
  "str_int i = (if i < 0 then CHR ''-'' # nat_digits (Suc (nat (- i))) (nat (- i))
                else nat_digits (Suc (nat i)) (nat i))"

text \<open>
  Python values as far as the program stores them in its settings and in the persisted
  profile: \<^verbatim>\<open>None\<close>, booleans, integers, floats (a float is represented by the rational
  that its shortest decimal notation denotes, so \<^verbatim>\<open>0.3\<close> is \<open>3/10\<close>), strings, lists and
  dictionaries (association lists in insertion order).
\<close>

datatype pyval =
    PNone
  | PBool bool
  | PInt int
  | PFloat rat
  | PStr string
  | PList "pyval list"
  | PDict "(string \<times> pyval) list"

type_synonym pydict = "(string \<times> pyval) list"

definition dict_get :: "('k \<times> 'v) list \<Rightarrow> 'k \<Rightarrow> 'v \<Rightarrow> 'v" where
  "dict_get d k dflt = (case map_of d k of Some v \<Rightarrow> v | None \<Rightarrow> dflt)"

definition is_digit :: "char \<Rightarrow> bool" where
  "is_digit c = (c \<in> set ''0123456789'')"

definition digit_val :: "char \<Rightarrow> int" where
  "digit_val c = int (of_char c) - 48"

fun int_digits :: "int \<Rightarrow> string \<Rightarrow> int option" where
  "int_digits acc [] = None"
| "int_digits acc (c # cs) =
     (if \<not> is_digit c then None
      else (case cs of
              [] \<Rightarrow> Some (acc * 10 + digit_val c)
            | d # ds \<Rightarrow> if d = CHR ''_'' then int_digits (acc * 10 + digit_val c) ds
                        else int_digits (acc * 10 + digit_val c) cs))"

definition int_of_str :: "string \<Rightarrow> int option" where
  "int_of_str s =
     (case py_strip s of
        [] \<Rightarrow> None
      | c # cs \<Rightarrow> if c = CHR ''-'' then map_option uminus (int_digits 0 cs)
                  else if c = CHR ''+'' then int_digits 0 cs
                  else int_digits 0 (c # cs))"

text \<open>\<^verbatim>\<open>int(v)\<close>: \<open>None\<close> where Python raises TypeError or ValueError.\<close>

fun py_int :: "pyval \<Rightarrow> int option" where
  "py_int (PInt i) = Some i"
| "py_int (PBool b) = Some (if b then 1 else 0)"
| "py_int (PFloat r) = Some (if 0 \<le> r then \<lfloor>r\<rfloor> else \<lceil>r\<rceil>)"
| "py_int (PStr s) = int_of_str s"
| "py_int v = None"

text \<open>\<^verbatim>\<open>bool(v)\<close>.\<close>

fun py_bool :: "pyval \<Rightarrow> bool" where
  "py_bool PNone = False"
| "py_bool (PBool b) = b"
| "py_bool (PInt i) = (i \<noteq> 0)"
| "py_bool (PFloat r) = (r \<noteq> 0)"
| "py_bool (PStr s) = (s \<noteq> [])"
| "py_bool (PList xs) = (xs \<noteq> [])"
| "py_bool (PDict d) = (d \<noteq> [])"


section \<open>The local conversation engine\<close>

text \<open>
  \<^verbatim>\<open>LocalConversationEngine\<close> (ai_api.py). \<open>conversation_history\<close> is never read or
  written after construction and is left out; \<open>response_patterns\<close> is the constant table
  below.
\<close>

record engine =
  creativity_level :: rat
  context_memory :: "pyval list"
  max_memory :: int
  user_profile :: pydict

definition init_engine :: "rat \<Rightarrow> engine" where
  "init_engine level =
     \<lparr>creativity_level = level, context_memory = [], max_memory = 10, user_profile = []\<rparr>"

definition set_creativity :: "rat \<Rightarrow> engine \<Rightarrow> engine" where
  "set_creativity level e = e\<lparr>creativity_level := max (1/10) (min 1 level)\<rparr>"

text \<open>The slice \<^verbatim>\<open>xs[-n:]\<close>: the last \<open>n\<close> elements for a positive \<open>n\<close>, and
  \<^verbatim>\<open>xs[k:]\<close> with \<open>k = -n\<close> otherwise.\<close>

definition last_n :: "int \<Rightarrow> 'a list \<Rightarrow> 'a list" where
  "last_n n xs = (if n > 0 then drop (length xs - nat n) xs else drop (nat (- n)) xs)"

definition set_memory_size :: "int \<Rightarrow> engine \<Rightarrow> engine" where
  "set_memory_size sz e =
     (let e1 = e\<lparr>max_memory := max 5 (min 50 sz)\<rparr>
      in if int (length (context_memory e1)) > max_memory e1
         then e1\<lparr>context_memory := last_n (max_memory e1) (context_memory e1)\<rparr>
         else e1)"

definition memory_entry :: "string \<Rightarrow> string \<Rightarrow> string \<Rightarrow> pyval" where
  "memory_entry user_input response now =
     PDict [(''user'', PStr (py_strip (py_lower user_input))),
            (''response'', PStr response),
            (''timestamp'', PStr now)]"

text \<open>\<open>now\<close> is the text of \<^verbatim>\<open>datetime.now().isoformat()\<close>. \<^verbatim>\<open>pop(0)\<close> drops the
  oldest entry; the list is not empty there, an entry was just appended.\<close>

definition add_to_memory :: "string \<Rightarrow> string \<Rightarrow> string \<Rightarrow> engine \<Rightarrow> engine" where
  "add_to_memory user_input response now e =
     (let mem = context_memory e @ [memory_entry user_input response now]
      in if int (length mem) > max_memory e
         then e\<lparr>context_memory := tl mem\<rparr>
         else e\<lparr>context_memory := mem\<rparr>)"

text \<open>A conversation turn is the user's text, the response and the time stamp.\<close>

fun add_turns :: "(string \<times> string \<times> string) list \<Rightarrow> engine \<Rightarrow> engine" where
  "add_turns [] e = e"
| "add_turns ((u, r, t) # turns) e = add_turns turns (add_to_memory u r t e)"

definition to_dict :: "engine \<Rightarrow> pydict" where
  "to_dict e =
     [(''context_memory'', PList (context_memory e)),
      (''user_profile'', PDict (user_profile e)),
      (''max_memory'', PInt (max_memory e))]"

text \<open>\<^verbatim>\<open>load_from_dict\<close>: every \<^verbatim>\<open>isinstance\<close> test is a case distinction, and the inner
  \<^verbatim>\<open>try\<close> around \<^verbatim>\<open>int(max_mem)\<close> keeps the old bound when the conversion raises.\<close>

definition load_from_dict :: "pyval \<Rightarrow> engine \<Rightarrow> engine" where
  "load_from_dict data e =
     (let mem = (case data of PDict d \<Rightarrow> dict_get d ''context_memory'' (PList []) | _ \<Rightarrow> PList []);
          e1 = (case mem of PList xs \<Rightarrow> e\<lparr>context_memory := xs\<rparr> | _ \<Rightarrow> e);
          prof = (case data of PDict d \<Rightarrow> dict_get d ''user_profile'' (PDict []) | _ \<Rightarrow> PDict []);
          e2 = (case prof of PDict p \<Rightarrow> e1\<lparr>user_profile := p\<rparr> | _ \<Rightarrow> e1);
          max_mem = (case data of
                       PDict d \<Rightarrow> dict_get d ''max_memory'' (PInt (max_memory e2))
                     | _ \<Rightarrow> PInt (max_memory e2));
          e3 = (case py_int max_mem of
                  Some n \<Rightarrow> e2\<lparr>max_memory := max 5 (min 50 n)\<rparr>
                | None \<Rightarrow> e2)
      in if int (length (context_memory e3)) > max_memory e3
         then e3\<lparr>context_memory := last_n (max_memory e3) (context_memory e3)\<rparr>
         else e3)"

definition greetings_patterns :: "(string \<times> string list) list" where
  "greetings_patterns =
    [(''conservative'',
      [''Hello! How can I assist you today?'',
       ''Hi there! What can I help you with?'',
       ''Good day! How may I help you?'']),
     (''balanced'',
      [''Hello! How can I assist you today?'',
       ''Hi there! What can I help you with?'',
       ''Good to see you! What's on your mind?'',
       ''Hey! Ready to help with whatever you need.'',
       ''Greetings! How may I be of service?'']),
     (''creative'',
      [''Hello there, wonderful human! What adventure shall we embark on today?'',
       ''Greetings, my friend! What fascinating topic can we explore together?'',
       ''Hey there! I'm buzzing with excitement to help you with anything!'',
       ''Well hello! What delightful challenge can I tackle for you today?'',
       ''Salutations! Ready to dive into whatever's on your brilliant mind!''])]"

definition how_are_you_patterns :: "(string \<times> string list) list" where
  "how_are_you_patterns =
    [(''conservative'',
      [''I'm functioning well, thank you. How are you?'',
       ''All systems operational. How can I help?'',
       ''I'm doing fine. What can I do for you?'']),
     (''balanced'',
      [''I'm doing great, thank you for asking! How are you?'',
       ''All systems running smoothly! How's your day going?'',
       ''Fantastic, thanks! What can I help you accomplish today?'',
       ''I'm here and ready to help! What's new with you?'']),
     (''creative'',
      [''I'm absolutely fantastic! My circuits are practically humming with joy! How's your day treating you?'',
       ''Couldn't be better! I'm like a digital ray of sunshine today! What's got you curious?'',
       ''I'm thriving in the digital realm! Every conversation energizes me. How are you doing, my friend?'',
       ''Spectacular! I'm feeling particularly clever today. What puzzle can we solve together?''])]"

definition thanks_patterns :: "(string \<times> string list) list" where
  "thanks_patterns =
    [(''conservative'',
      [''You're welcome. Anything else I can help with?'',
       ''Glad to help. Is there anything else?'',
       ''No problem. What else can I do?'']),
     (''balanced'',
      [''You're very welcome! Anything else I can help with?'',
       ''Happy to help! Is there anything else you need?'',
       ''My pleasure! Let me know if you need anything else.'',
       ''Glad I could assist! What else can I do for you?'']),
     (''creative'',
      [''Absolutely my pleasure! Helping you brightens my entire digital day!'',
       ''You're so welcome! It's like digital dopamine when I can be useful!'',
       ''Aww, you're too kind! I live for moments like these. What's next on our agenda?'',
       ''The pleasure was all mine! I'm practically glowing with satisfaction right now!''])]"

definition capabilities_patterns :: "(string \<times> string list) list" where
  "capabilities_patterns =
    [(''conservative'',
      [''I can help with weather, web searches, system commands, and conversation.'',
       ''My functions include weather information, internet searches, and system operations.'',
       ''I provide weather data, search results, system commands, and general assistance.'']),
     (''balanced'',
      [''I can help with weather, web searches, system commands, and general conversation!'',
       ''I'm great at finding information, controlling your system, checking weather, and chatting!'',
       ''Weather updates, web searches, opening programs, and friendly conversation are my specialties!'']),
     (''creative'',
      [''Oh, I'm like a digital Swiss Army knife! Weather wizardry, web search sorcery, system command mastery, and conversation that'll knock your socks off!'',
       ''I'm your personal digital genie! I grant wishes for weather info, conjure search results from the internet, command your system like magic, and chat with the enthusiasm of a thousand coffee shots!'',
       ''Think of me as your AI sidekick! I can forecast weather like a meteorologist, search the web faster than you can blink, control your computer like a digital puppeteer, and chat with more personality than a talk show host!''])]"

definition confused_patterns :: "(string \<times> string list) list" where
  "confused_patterns =
    [(''conservative'',
      [''I don't understand. Please clarify.'',
       ''Could you rephrase that?'',
       ''Please provide more information.'']),
     (''balanced'',
      [''I'm not quite sure I understand. Could you rephrase that?'',
       ''Could you clarify what you're looking for?'',
       ''I want to help, but I need a bit more information.'']),
     (''creative'',
      [''Hmm, you've got me scratching my digital head! Could you paint that picture a bit clearer for me?'',
       ''Oops, my understanding circuits are a bit tangled! Mind rewording that masterpiece?'',
       ''I'm drawing a delightful blank here! Help me connect the dots with a little more detail?''])]"

definition default_responses_patterns :: "(string \<times> string list) list" where
  "default_responses_patterns =
    [(''conservative'',
      [''I see. What would you like to know about that?'',
       ''That's interesting. How can I help?'',
       ''Please tell me more about what you need.'']),
     (''balanced'',
      [''That's interesting! Tell me more about that.'',
       ''I see! What would you like to know about it?'',
       ''Fascinating! How can I help you with that?'',
       ''That sounds intriguing! What specifically interests you about it?'']),
     (''creative'',
      [''Ooh, that's got my curiosity circuits firing on all cylinders! Spill the details!'',
       ''Now THAT sounds like an adventure waiting to happen! What's the scoop?'',
       ''My interest is officially piqued! Let's dive deep into this rabbit hole together!'',
       ''You've struck digital gold with that topic! I'm all ears (well, all sensors)!''])]"

definition response_patterns :: "(string \<times> (string \<times> string list) list) list" where
  "response_patterns =
     [(''greetings'', greetings_patterns),
      (''how_are_you'', how_are_you_patterns),
      (''thanks'', thanks_patterns),
      (''capabilities'', capabilities_patterns),
      (''confused'', confused_patterns),
      (''default_responses'', default_responses_patterns)]"

definition get_creativity_tier :: "engine \<Rightarrow> string" where
  "get_creativity_tier e =
     (if creativity_level e \<le> 3/10 then ''conservative''
      else if creativity_level e \<le> 7/10 then ''balanced''
      else ''creative'')"

text \<open>\<^verbatim>\<open>analyze_intent\<close>; \<open>recent_context\<close> is computed by the source and never used.\<close>

definition analyze_intent :: "string \<Rightarrow> string" where
  "analyze_intent message =
     (let message_lower = py_strip (py_lower message)
      in if any_in [''hello'', ''hi'', ''hey'', ''good morning'', ''good afternoon'', ''greetings'']
              message_lower then ''greetings''
         else if any_in [''how are you'', ''how's it going'', ''how do you feel''] message_lower
           then ''how_are_you''
         else if any_in [''thanks'', ''thank you'', ''appreciate'', ''grateful''] message_lower
           then ''thanks''
         else if any_in [''good job'', ''excellent'', ''amazing'', ''awesome'', ''brilliant'']
              message_lower then ''compliments''
         else if any_in [''what can you do'', ''your abilities'', ''your capabilities'', ''help me'']
              message_lower then ''capabilities''
         else if any_in [''bye'', ''goodbye'', ''see you'', ''farewell'', ''exit''] message_lower
           then ''farewells''
         else if length message_lower < 15 \<and> py_in ''?'' message_lower then ''confused''
         else ''default'')"

text \<open>The response set of \<^verbatim>\<open>generate_response\<close>: the table entry of the intent at the
  tier (falling back to its balanced list), and the \<open>default_responses\<close> entry for an
  intent that is no key of the table.\<close>

definition tier_list :: "(string \<times> string list) list \<Rightarrow> string \<Rightarrow> string list" where
  "tier_list tiers tier = dict_get tiers tier (dict_get tiers ''balanced'' [])"

definition response_set :: "string \<Rightarrow> string \<Rightarrow> string list" where
  "response_set intent tier =
     (case map_of response_patterns intent of
        Some tiers \<Rightarrow> tier_list tiers tier
      | None \<Rightarrow> tier_list default_responses_patterns tier)"

text \<open>
  The pseudo-random generator is an oracle \<open>rnd\<close>: draw number \<open>k\<close> decides the
  \<open>k\<close>-th random choice of the run. \<^verbatim>\<open>random.choices(xs, weights)\<close> picks the element
  whose cumulative weight first exceeds the drawn point; \<^verbatim>\<open>random.random() < p\<close> is the
  parity of a draw; \<^verbatim>\<open>random.sample(xs, 2)\<close> is two distinct positions. Probabilities are
  not modelled, every outcome the generator can produce is produced by some oracle.
\<close>

fun pick_weighted :: "nat list \<Rightarrow> nat \<Rightarrow> nat" where
  "pick_weighted [] point = 0"
| "pick_weighted (w # ws) point =
     (if point < w then 0 else Suc (pick_weighted ws (point - w)))"

definition choices :: "string list \<Rightarrow> nat list \<Rightarrow> nat \<Rightarrow> string" where
  "choices xs weights draw = xs ! (pick_weighted weights (draw mod sum_list weights))"

definition coin :: "nat \<Rightarrow> bool" where
  "coin draw = odd draw"

definition select_response :: "(nat \<Rightarrow> nat) \<Rightarrow> nat \<Rightarrow> rat \<Rightarrow> string list \<Rightarrow> string \<times> nat" where
  "select_response rnd k level responses =
     (let n = length responses in
      if responses = [] then (''I'm here to help!'', k)
      else if level \<le> 3/10 then (responses ! 0, k)
      else if level \<le> 1/2 then
        (choices responses (take n ([3, 2, 1] @ replicate (n - 3) 1)) (rnd k), Suc k)
      else if level \<le> 7/10 then
        (choices responses (take n ([2, 2, 2, 1, 1] @ replicate (n - 5) 1)) (rnd k), Suc k)
      else if level \<le> 8/10 then
        (choices responses (take n ([1, 1, 2, 2, 3] @ replicate (n - 5) 2)) (rnd k), Suc k)
      else if n > 1 \<and> coin (rnd k) then
        (let i = rnd (k + 1) mod n;
             j = (i + 1 + rnd (k + 2) mod (n - 1)) mod n
         in (responses ! i @ '' '' @ py_lower (responses ! j), k + 3))
      else if n > 1 then (responses ! (rnd (k + 1) mod n), k + 2)
      else (responses ! (rnd k mod n), Suc k))"

definition flourishes :: "string list" where
  "flourishes = ['' amazing'', '' spectacular'', '' fantastic'', '' wonderful'', '' brilliant'',
                 '' awesome'', '' incredible'', '' extraordinary'']"

section \<open>Exceptions\<close>

text \<open>The exceptions that the modelled code raises or handles, with the text \<^verbatim>\<open>str(e)\<close>
  gives. \<open>HFRequestError\<close> carries the HTTP status code and the message.\<close>

datatype exn =
    HFRequestError int string
  | Timeout string
  | KeyError string
  | NameError string
  | AttributeError string
  | OSError string
  | Exception string

fun exn_str :: "exn \<Rightarrow> string" where
  "exn_str (HFRequestError code msg) = msg"
| "exn_str (Timeout msg) = msg"
| "exn_str (KeyError k) = [CHR 0x27] @ k @ [CHR 0x27]"
| "exn_str (NameError n) = ''name '' @ [CHR 0x27] @ n @ [CHR 0x27] @ '' is not defined''"
| "exn_str (AttributeError msg) = msg"
| "exn_str (OSError msg) = msg"
| "exn_str (Exception msg) = msg"

section \<open>The model status cache of the settings manager\<close>

text \<open>
  \<^verbatim>\<open>SettingsManager\<close> (app.py). \<open>settings\<close> is the settings dictionary without its two
  structured entries, which are typed fields here: \<open>ui_models\<close> is
  \<^verbatim>\<open>settings['available_models']\<close> and \<open>stored_errors\<close> is \<^verbatim>\<open>settings['model_errors']\<close>,
  each \<open>None\<close> when the key is missing. The constructor creates \<^verbatim>\<open>'model_errors'\<close>; the
  settings dialog's reset replaces \<open>settings\<close> by a copy of the defaults, which has no
  such key. A model descriptor is a dictionary of text fields (its \<^verbatim>\<open>features\<close> list
  is never read by the modelled code and is left out); a catalog lists descriptors by
  model id, in insertion order. \<^verbatim>\<open>time.time()\<close> is a clock reading.
\<close>

type_synonym model_info = "(string \<times> string) list"
type_synonym catalog = "(string \<times> model_info) list"

record error_record =
  error :: string
  timestamp :: nat

record settings_manager =
  settings :: "string \<rightharpoonup> pyval"
  ui_models :: "catalog option"
  stored_errors :: "(string \<rightharpoonup> error_record) option"
  model_errors :: "string \<rightharpoonup> error_record"
  model_status :: "string \<rightharpoonup> string"

definition sm_get :: "settings_manager \<Rightarrow> string \<Rightarrow> pyval \<Rightarrow> pyval" where
  "sm_get sm key dflt = (case settings sm key of Some v \<Rightarrow> v | None \<Rightarrow> dflt)"

definition sm_set :: "string \<Rightarrow> pyval \<Rightarrow> settings_manager \<Rightarrow> settings_manager" where
  "sm_set key v sm = sm\<lparr>settings := (settings sm)(key \<mapsto> v)\<rparr>"

text \<open>\<^verbatim>\<open>set_model_status(model_id, status, error=None)\<close>; \<open>status\<close> and \<open>error\<close> are
  \<open>None\<close> or a text.\<close>

definition set_model_status ::
  "string \<Rightarrow> string option \<Rightarrow> string option \<Rightarrow> nat \<Rightarrow> settings_manager \<Rightarrow> settings_manager" where
  "set_model_status model_id status err now sm =
     (let st = py_lower (case status of None \<Rightarrow> ''error'' | Some s \<Rightarrow> if s = [] then ''error'' else s);
          sm1 = sm\<lparr>model_status := (model_status sm)(model_id \<mapsto> st)\<rparr>;
          stored = (case stored_errors sm1 of None \<Rightarrow> Map.empty | Some m \<Rightarrow> m)
      in if st = ''available''
         then sm1\<lparr>model_errors := (model_errors sm1)(model_id := None),
                  stored_errors := Some (stored(model_id := None))\<rparr>
         else (let msg = (case err of
                            None \<Rightarrow> (if st = ''paused'' then ''Paused'' else ''Unavailable'')
                          | Some e \<Rightarrow> if e = [] then (if st = ''paused'' then ''Paused'' else ''Unavailable'')
                                      else e)
               in sm1\<lparr>model_errors := (model_errors sm1)(model_id \<mapsto> \<lparr>error = msg, timestamp = now\<rparr>),
                       stored_errors :=
                         Some (stored(model_id \<mapsto> \<lparr>error = msg, timestamp = Suc now\<rparr>))\<rparr>))"

text \<open>\<^verbatim>\<open>set_model_error(model_id, error)\<close>. The last statement indexes
  \<^verbatim>\<open>self.settings['model_errors']\<close> and raises KeyError when that key is missing, after
  the error and the status have been recorded.\<close>

definition set_model_error ::
  "string \<Rightarrow> string \<Rightarrow> nat \<Rightarrow> settings_manager \<Rightarrow> exn option \<times> settings_manager" where
  "set_model_error model_id err now sm =
     (let sm1 = sm\<lparr>model_errors := (model_errors sm)(model_id \<mapsto> \<lparr>error = err, timestamp = now\<rparr>)\<rparr>;
          sm2 = sm1\<lparr>model_status := (model_status sm1)
                   (model_id \<mapsto> (if py_in ''paused'' (py_lower err) then ''paused'' else ''error''))\<rparr>
      in case stored_errors sm2 of
           None \<Rightarrow> (Some (KeyError ''model_errors''), sm2)
         | Some m \<Rightarrow>
             (None, sm2\<lparr>stored_errors :=
                           Some (m(model_id \<mapsto> \<lparr>error = err, timestamp = Suc now\<rparr>))\<rparr>))"

definition get_model_error :: "settings_manager \<Rightarrow> string \<Rightarrow> error_record option" where
  "get_model_error sm model_id = model_errors sm model_id"

definition get_model_status :: "settings_manager \<Rightarrow> string \<Rightarrow> string" where
  "get_model_status sm model_id =
     (case model_status sm model_id of Some s \<Rightarrow> s | None \<Rightarrow> ''available'')"

text \<open>\<^verbatim>\<open>clear_model_error(model_id)\<close>; the closing \<^verbatim>\<open>save_settings()\<close> writes the settings
  file and catches its own errors.\<close>

definition clear_model_error ::
  "string \<Rightarrow> settings_manager \<Rightarrow> exn option \<times> settings_manager" where
  "clear_model_error model_id sm =
     (let sm1 = sm\<lparr>model_errors := (model_errors sm)(model_id := None)\<rparr>;
          sm2 = (if model_id \<in> dom (model_status sm1)
                 then sm1\<lparr>model_status := (model_status sm1)(model_id \<mapsto> ''available'')\<rparr>
                 else sm1)
      in case stored_errors sm2 of
           None \<Rightarrow> (Some (KeyError ''model_errors''), sm2)
         | Some m \<Rightarrow> (None, sm2\<lparr>stored_errors := Some (m(model_id := None))\<rparr>))"

section \<open>The environment and the process state\<close>

text \<open>
  What one HTTP POST to the model endpoint produces, as far as \<^verbatim>\<open>query_model\<close> reads
  it: a response with its status code, or an exception of \<^verbatim>\<open>requests.post\<close>. For status
  200, \<open>content\<close> is the text of \<^verbatim>\<open>choices[0].message.content\<close> (or of
  \<^verbatim>\<open>generated_text\<close>), or \<open>Inl\<close> the text of the exception raised while reading the
  body, an unexpected format included. For the other statuses \<open>err_text\<close> is the error
  text (\<^verbatim>\<open>str(err_json['error'])\<close>, else \<^verbatim>\<open>response.text\<close>) and \<open>err_detail\<close> the text of
  \<^verbatim>\<open>err_json.get("error") or err_json.get("message") or ""\<close>.
\<close>

record http_response =
  status_code :: int
  content :: "string + string"
  err_text :: string
  err_detail :: string

datatype http_result = Response http_response | TimedOut string | Failed string

text \<open>
  The environment holds everything the program reads from outside: the outcome of the
  \<open>n\<close>-th POST (counted from 0 over the run, with the model id it is sent for), the
  value of \<^verbatim>\<open>OPENROUTER_API_KEY\<close> seen by the \<open>n\<close>-th reload, \<^verbatim>\<open>HF_ALT_MODELS\<close>, the
  random draws, the clock's text, the answers of the weather and search collaborators
  (\<^verbatim>\<open>get_weather\<close> and \<^verbatim>\<open>enhanced_web_search\<close> catch every exception and return text on
  every path), the platform, whether starting a program succeeds, and whether the profile
  file can be written.
\<close>

record env =
  http_post :: "nat \<Rightarrow> string \<Rightarrow> http_result"
  environ_token :: "nat \<Rightarrow> string option"
  hf_alt_models :: string
  rnd :: "nat \<Rightarrow> nat"
  isoformat :: "nat \<Rightarrow> string"
  weather_text :: "rat \<Rightarrow> string \<Rightarrow> string"
  search_text :: "string \<Rightarrow> int \<Rightarrow> string"
  is_windows :: bool
  can_start :: "string \<Rightarrow> bool"
  disk_ok :: bool

record advanced =
  adv_enable_search :: bool
  adv_enable_system_commands :: bool
  adv_search_results_limit :: int
  adv_conversation_memory :: int
  adv_response_delay :: rat
  adv_current_model :: string
  adv_remember_local_profile :: bool

text \<open>
  The module's globals (\<open>conversation_engine\<close>, \<open>advanced_settings\<close>, \<open>settings_manager\<close>,
  the API key of \<open>openrouter_api\<close>) and a log of the effects: \<open>posts\<close> lists the model
  ids of the POSTs sent so far, \<open>reloads\<close> counts the calls of
  \<^verbatim>\<open>reload_openrouter_token_from_env\<close>, \<open>draws\<close> the random draws, \<open>clock\<close> the clock
  readings, \<open>started\<close> lists the programs started, \<open>profile_file\<close> is the persisted
  profile. \<^verbatim>\<open>time.sleep\<close> changes none of them and is left out.
\<close>

record world =
  conversation_engine :: engine
  advanced_settings :: advanced
  settings_manager :: "settings_manager option"
  api_key :: "string option"
  posts :: "string list"
  reloads :: nat
  draws :: nat
  clock :: nat
  started :: "string list"
  profile_file :: "pydict option"

definition save_to_disk :: "env \<Rightarrow> world \<Rightarrow> world" where
  "save_to_disk env w =
     (if disk_ok env then w\<lparr>profile_file := Some (to_dict (conversation_engine w))\<rparr> else w)"

definition generate_response :: "env \<Rightarrow> string \<Rightarrow> world \<Rightarrow> string \<times> world" where
  "generate_response env message w =
     (let e = conversation_engine w;
          intent = analyze_intent message;
          creativity_tier = get_creativity_tier e;
          responses = response_set intent creativity_tier;
          (response, k) = select_response (rnd env) (draws w) (creativity_level e) responses;
          w1 = w\<lparr>conversation_engine := add_to_memory message response (isoformat env (clock w)) e,
                 draws := k, clock := Suc (clock w)\<rparr>;
          w2 = (if adv_remember_local_profile (advanced_settings w1) then save_to_disk env w1 else w1)
      in if creativity_level e > 8/10
         then (if coin (rnd env k)
               then (response @ flourishes ! (rnd env (Suc k) mod length flourishes),
                     w2\<lparr>draws := k + 2\<rparr>)
               else (response, w2\<lparr>draws := Suc k\<rparr>))
         else (response, w2))"

section \<open>The remote model client\<close>

text \<open>\<^verbatim>\<open>OpenRouterAPI.query_model\<close> (the second class of that name, which is the one
  bound when the module has loaded), applied to the outcome of its POST.\<close>

definition query_model :: "http_result \<Rightarrow> exn + string" where
  "query_model r =
     (case r of
        TimedOut t \<Rightarrow> Inl (Timeout t)
      | Failed t \<Rightarrow> Inl (HFRequestError (- 1) t)
      | Response resp \<Rightarrow>
          if status_code resp = 200 then
            (case content resp of
               Inr c \<Rightarrow> Inr c
             | Inl t \<Rightarrow> Inl (HFRequestError (- 1) (''Failed to parse OpenRouter response: '' @ t)))
          else
            (let lower_err = py_lower (err_text resp) in
             if py_in ''paused'' lower_err \<or> py_in ''space is paused'' lower_err
               then Inl (HFRequestError (- 1) ''HF endpoint paused'')
             else if py_in ''loading'' lower_err \<or> status_code resp = 503 \<or> status_code resp = 524
               then Inl (HFRequestError (- 1) ''HF endpoint loading'')
             else if status_code resp = 401 \<or> status_code resp = 403
               then Inl (HFRequestError (status_code resp) ''HF authentication/authorization error'')
             else if status_code resp = 429
               then Inl (HFRequestError 429 ''HF rate limit exceeded'')
             else if status_code resp = 400
               then Inl (HFRequestError 400
                          (if err_detail resp \<noteq> [] then ''Bad Request: '' @ err_detail resp
                           else ''Bad Request''))
             else if status_code resp = 404
               then Inl (HFRequestError 404 ''Model not found or endpoint removed'')
             else Inl (HFRequestError (status_code resp)
                        (''HF request failed: '' @ str_int (status_code resp)))))"

text \<open>One call of \<^verbatim>\<open>openrouter_api.query_model(model_id, ...)\<close>: the POST is logged and its
  outcome is the environment's answer to the POST of that number.\<close>

definition remote_call :: "env \<Rightarrow> string \<Rightarrow> world \<Rightarrow> (exn + string) \<times> world" where
  "remote_call env model_id w =
     (query_model (http_post env (length (posts w)) model_id), w\<lparr>posts := posts w @ [model_id]\<rparr>)"

section \<open>The model catalog\<close>

definition get_available_models :: catalog where
  "get_available_models =
     [(''local_engine'',
       [(''name'', ''Local Conversation Engine''),
        (''type'', ''local''),
        (''provider'', ''local''),
        (''description'', ''Fast local responses with advanced pattern matching and creativity controls''),
        (''status'', ''active'')]),
      (''local/mistral-7b-instruct'',
       [(''name'', ''Mistral 7B''),
        (''type'', ''local''),
        (''provider'', ''local''),
        (''description'', ''Local 7B parameter model with excellent performance, runs entirely on your hardware''),
        (''status'', ''not_downloaded''),
        (''download_command'', ''ollama pull mistral'')]),
      (''local/llama-3.1-8b-instruct'',
       [(''name'', ''Llama 3.1 8B''),
        (''type'', ''local''),
        (''provider'', ''local''),
        (''description'', ''Latest local 8B model with strong reasoning capabilities, runs entirely on your hardware''),
        (''status'', ''not_downloaded''),
        (''download_command'', ''ollama pull llama3.1'')]),
      (''local/qwen-2.5-7b-instruct'',
       [(''name'', ''Qwen 2.5 7B''),
        (''type'', ''local''),
        (''provider'', ''local''),
        (''description'', ''Local 7B model with strong multilingual capabilities, runs entirely on your hardware''),
        (''status'', ''not_downloaded''),
        (''download_command'', ''ollama pull qwen2.5:7b'')]),
      (''local/deepseek-coder-6.7b'',
       [(''name'', ''DeepSeek Coder 6.7B''),
        (''type'', ''local''),
        (''provider'', ''local''),
        (''description'', ''Local 6.7B model optimized for coding and programming tasks, runs entirely on your hardware''),
        (''status'', ''not_downloaded''),
        (''download_command'', ''ollama pull deepseek-coder:6.7b'')]),
      (''deepseek/deepseek-r1-0528:free'',
       [(''name'', ''DeepSeek R1''),
        (''type'', ''openrouter''),
        (''provider'', ''openrouter''),
        (''description'', ''DeepSeek's latest conversational model optimized for chat interactions and instruction following''),
        (''status'', ''available'')]),
      (''openai/gpt-oss-20b:free'',
       [(''name'', ''OpenAI GPT-OSS 20B''),
        (''type'', ''openrouter''),
        (''provider'', ''openrouter''),
        (''description'', ''Open-source 20B parameter language model based on GPT architecture with strong general-purpose capabilities''),
        (''status'', ''available'')]),
      (''openai/gpt-oss-120b:free'',
       [(''name'', ''OpenAI GPT-OSS 120B''),
        (''type'', ''openrouter''),
        (''provider'', ''openrouter''),
        (''description'', ''Larger GPT-OSS 120B parameter model for more demanding reasoning and generation tasks''),
        (''status'', ''available'')])]"

text \<open>\<^verbatim>\<open>available_models.get(current_model, available_models['local_engine'])\<close>. Every
  descriptor of the constant catalog has a name, so \<^verbatim>\<open>info['name']\<close> cannot raise.\<close>

definition lookup_model :: "string \<Rightarrow> model_info" where
  "lookup_model current_model =
     dict_get get_available_models current_model (dict_get get_available_models ''local_engine'' [])"

definition name_of :: "model_info \<Rightarrow> string" where
  "name_of info = dict_get info ''name'' []"

definition using_suffix :: "string \<Rightarrow> string" where
  "using_suffix name = [CHR 0x0A, CHR 0x0A] @ ''[Using: '' @ name @ '']''"

text \<open>\<^verbatim>\<open>_get_ui_available_models\<close>: the settings manager's catalog when it is a non-empty
  dictionary, the constant catalog otherwise.\<close>

definition get_ui_available_models :: "world \<Rightarrow> catalog" where
  "get_ui_available_models w =
     (case settings_manager w of
        None \<Rightarrow> get_available_models
      | Some sm \<Rightarrow> (case ui_models sm of
                     None \<Rightarrow> get_available_models
                   | Some models \<Rightarrow> if models \<noteq> [] then models else get_available_models))"

section \<open>The intent dispatcher\<close>

definition model_questions :: "string list" where
  "model_questions =
     [''what model are you'', ''which model are you'', ''what ai model'', ''which ai model'',
      ''what model do you use'', ''which model do you use'', ''what are you using'',
      ''tell me your model'', ''identify your model'', ''current model'']"

definition identity_questions :: "string list" where
  "identity_questions =
     [''who are you'', ''what are you'', ''tell me about yourself'', ''introduce yourself'',
      ''who is luna'', ''what is luna'']"

definition asks_identity :: "string \<Rightarrow> bool" where
  "asks_identity message_lower =
     (any_in model_questions message_lower \<or> any_in identity_questions message_lower)"

definition identity_answer :: "world \<Rightarrow> string \<Rightarrow> string" where
  "identity_answer w current_model =
     (let info = lookup_model current_model;
          model_name = name_of info;
          model_type = dict_get info ''type'' ''unknown'';
          description = dict_get info ''description'' ''No description available'';
          response =
            (if creativity_level (conversation_engine w) > 7/10
             then ''I'm currently running on '' @ model_name @ ''! It's a '' @ model_type
                  @ '' model. '' @ description @ '' I'm ready to help you with whatever you need!''
             else ''I am currently using '' @ model_name @ '', which is a '' @ model_type
                  @ '' model. '' @ description)
      in response @ using_suffix model_name)"

text \<open>The city of a weather request: the text between the first and the second
  \<^verbatim>\<open>" in "\<close>, stripped, with commas for its spaces; the default city when there is no
  such clause or the text is empty.\<close>

definition weather_city :: "string \<Rightarrow> string" where
  "weather_city message_lower =
     (if py_in '' in '' message_lower
      then (let city_part = py_strip (before_first '' in '' (after_first '' in '' message_lower))
            in if city_part \<noteq> []
               then map (\<lambda>c. if c = CHR '' '' then CHR '','' else c) city_part
               else ''Beavercreek,Ohio'')
      else ''Beavercreek,Ohio'')"

definition get_weather :: "env \<Rightarrow> world \<Rightarrow> string \<Rightarrow> string" where
  "get_weather env w city = weather_text env (creativity_level (conversation_engine w)) city"

definition weather_answer :: "env \<Rightarrow> world \<Rightarrow> string \<Rightarrow> string \<Rightarrow> string" where
  "weather_answer env w current_model message_lower =
     get_weather env w (weather_city message_lower) @ using_suffix (name_of (lookup_model current_model))"

definition search_keywords :: "string list" where
  "search_keywords =
     [''search'', ''look up'', ''find'', ''google'', ''what is'', ''who is'', ''when is'', ''where is'',
      ''tell me about'', ''information about'', ''search for'', ''find out'', ''lookup'',
      ''nfl'', ''football'', ''sports'', ''baseball'', ''basketball'', ''soccer'', ''hockey'',
      ''news'', ''latest'', ''recent'', ''current'', ''today'', ''update'', ''score'', ''game'',
      ''how to'', ''tutorial'', ''guide'', ''learn'', ''explain'', ''define'', ''meaning of'']"

text \<open>The keyword loop stops at the first keyword of the list that occurs in the message;
  for a search verb or a question opener the query is the stripped text after the
  keyword's first occurrence, when that is not empty.\<close>

definition keyword_query :: "string \<Rightarrow> bool \<times> string" where
  "keyword_query message_lower =
     (case find (\<lambda>keyword. py_in keyword message_lower) search_keywords of
        None \<Rightarrow> (False, message_lower)
      | Some keyword \<Rightarrow>
          (True,
           if keyword \<in> set [''search for'', ''search'', ''look up'', ''find'', ''google'',
                               ''what is'', ''who is'', ''when is'', ''where is'',
                               ''tell me about'', ''information about'']
              \<and> py_strip (after_first keyword message_lower) \<noteq> []
           then py_strip (after_first keyword message_lower)
           else message_lower))"

text \<open>\<^verbatim>\<open>re.search\<close> for the patterns of the shape \<^verbatim>\<open>(?:h1|h2|...).+(?:t1|t2|...)\<close>: somewhere
  in the text a head, then at least one character that is no line feed, then a tail.
  \<open>gap_then tails s\<close> matches \<^verbatim>\<open>.+(?:t1|...)\<close> at the start of \<open>s\<close>.\<close>

fun gap_then :: "string list \<Rightarrow> string \<Rightarrow> bool" where
  "gap_then tails [] = False"
| "gap_then tails (c # cs) =
     (c \<noteq> CHR 0x0A \<and> (list_ex (\<lambda>t. prefix t cs) tails \<or> gap_then tails cs))"

fun re_search :: "string list \<Rightarrow> string list \<Rightarrow> string \<Rightarrow> bool" where
  "re_search heads tails [] = False"
| "re_search heads tails (c # cs) =
     (list_ex (\<lambda>h. prefix h (c # cs) \<and> gap_then tails (drop (length h) (c # cs))) heads
      \<or> re_search heads tails cs)"

definition question_patterns :: "(string list \<times> string list) list" where
  "question_patterns =
     [([''what''], [''is'', ''are'', ''was'', ''were'', ''will be'', ''does'', ''do'', ''did'']),
      ([''who''], [''is'', ''are'', ''was'', ''were'', ''will be'']),
      ([''when''], [''is'', ''are'', ''was'', ''were'', ''will be'', ''did'', ''does'', ''do'']),
      ([''where''], [''is'', ''are'', ''was'', ''were'', ''will be'']),
      ([''how''], [''is'', ''are'', ''was'', ''were'', ''will be'', ''do'', ''does'', ''did'', ''to'']),
      ([''why''], [''is'', ''are'', ''was'', ''were'', ''will be'', ''do'', ''does'', ''did'']),
      ([''nfl'', ''football'', ''sports'', ''baseball'', ''basketball''],
       [''score'', ''game'', ''news'', ''update'', ''today'', ''latest''])]"

definition sports_terms :: "string list" where
  "sports_terms = [''nfl'', ''football'', ''baseball'', ''basketball'', ''soccer'', ''hockey'', ''sports'']"

text \<open>The search detection of \<^verbatim>\<open>call_ai_api\<close> with search enabled: whether the message is
  a search query, and the query text before its final clean-up.\<close>

definition detect_search :: "string \<Rightarrow> bool \<times> string" where
  "detect_search message_lower =
     (let (by_keyword, q1) = keyword_query message_lower;
          by_pattern = list_ex (\<lambda>(heads, tails). re_search heads tails message_lower) question_patterns;
          sports = any_in sports_terms message_lower;
          q2 = (if sports then
                  (if py_in ''search the nfl'' message_lower then ''NFL news today latest scores''
                   else if py_in ''nfl'' message_lower
                           \<and> \<not> any_in [''score'', ''news'', ''game'', ''today''] message_lower
                     then ''NFL '' @ py_strip (py_remove ''nfl'' message_lower) @ '' latest news''
                   else q1)
                else q1)
      in (by_keyword \<or> by_pattern \<or> sports, q2))"

text \<open>The search stage: \<open>Some\<close> answer, or \<open>None\<close> when the flow goes on to the system
  commands. \<open>search_limit\<close> is \<^verbatim>\<open>search_results_limit or advanced_settings.get(...)\<close>.\<close>

definition search_stage ::
  "env \<Rightarrow> world \<Rightarrow> bool \<Rightarrow> int \<Rightarrow> string \<Rightarrow> string \<Rightarrow> string option" where
  "search_stage env w search_enabled search_limit current_model message_lower =
     (let model_name = name_of (lookup_model current_model) in
      if search_enabled then
        (let (is_search_query, q) = detect_search message_lower;
             search_query = py_strip (lstrip_chars ''about for the'' q)
         in if is_search_query \<and> search_query \<noteq> [] \<and> length search_query > 2
            then Some (search_text env search_query search_limit @ using_suffix model_name)
            else None)
      else if any_in [''search'', ''google'', ''find'', ''look up''] message_lower then
        Some ((if creativity_level (conversation_engine w) > 7/10
               then ''Web search is currently taking a digital vacation! You can re-enable it in the advanced settings if you'd like to explore the internet together.''
               else ''Web search is currently disabled. You can enable it in the advanced settings.'')
              @ using_suffix model_name)
      else None)"

section \<open>System commands\<close>

text \<open>
  \<^verbatim>\<open>execute_system_command\<close>. \<^verbatim>\<open>subprocess.Popen\<close> and \<^verbatim>\<open>subprocess.run\<close> raise OSError
  (FileNotFoundError) when the program cannot be started; only the screenshot branch
  catches that. The result is the raised exception, or the returned text, or \<open>None\<close>.
  \<open>start\<close> starts a program and logs it.
\<close>

definition start :: "env \<Rightarrow> string \<Rightarrow> world \<Rightarrow> exn option \<times> world" where
  "start env prog w =
     (if can_start env prog then (None, w\<lparr>started := started w @ [prog]\<rparr>)
      else (Some (OSError (''[Errno 2] No such file or directory: '' @ [CHR 0x27] @ prog @ [CHR 0x27])),
            w))"

definition by_creativity :: "world \<Rightarrow> string \<Rightarrow> string \<Rightarrow> string \<Rightarrow> string" where
  "by_creativity w high mid low =
     (let creativity = creativity_level (conversation_engine w)
      in if creativity > 7/10 then high else if creativity > 3/10 then mid else low)"

definition started_or_raise ::
  "env \<Rightarrow> string \<Rightarrow> string \<Rightarrow> world \<Rightarrow> (exn + string option) \<times> world" where
  "started_or_raise env prog answer w =
     (case start env prog w of
        (Some e, w1) \<Rightarrow> (Inl e, w1)
      | (None, w1) \<Rightarrow> (Inr (Some answer), w1))"

definition emoji_folder :: string where
  "emoji_folder = [CHR 0xF0, CHR 0x9F, CHR 0x93, CHR 0x81]"

definition emoji_loud :: string where
  "emoji_loud = [CHR 0xF0, CHR 0x9F, CHR 0x94, CHR 0x8A]"

definition emoji_quiet :: string where
  "emoji_quiet = [CHR 0xF0, CHR 0x9F, CHR 0x94, CHR 0x89]"

definition emoji_mute :: string where
  "emoji_mute = [CHR 0xF0, CHR 0x9F, CHR 0x94, CHR 0x87]"

definition emoji_camera :: string where
  "emoji_camera = [CHR 0xF0, CHR 0x9F, CHR 0x93, CHR 0xB8]"

definition execute_system_command ::
  "env \<Rightarrow> string \<Rightarrow> world \<Rightarrow> (exn + string option) \<times> world" where
  "execute_system_command env command0 w =
     (let command = py_lower command0;
          creativity = creativity_level (conversation_engine w)
      in
      if \<not> adv_enable_system_commands (advanced_settings w) then
        (Inr (Some (if creativity > 7/10
                    then ''System commands are taking a break right now! You can enable them in the advanced settings.''
                    else ''System commands are currently disabled. Please enable them in the advanced settings.'')),
         w)
      else if py_in ''open'' command then
        (if py_in ''notepad'' command then
           (if is_windows env then
              started_or_raise env ''notepad.exe''
                (by_creativity w
                   ''Notepad is now ready for your brilliant thoughts! Time to write something amazing!''
                   ''Opening Notepad for you...''
                   ''Opening Notepad...'') w
            else
              started_or_raise env ''gedit''
                (if creativity \<le> 3/10 then ''Opening text editor...'' else ''Text editor at your service!'') w)
         else if py_in ''calculator'' command then
           (if is_windows env then
              started_or_raise env ''calc.exe''
                (by_creativity w
                   ''Calculator is ready to crunch some numbers! Let's solve the mysteries of mathematics!''
                   ''Opening Calculator for you...''
                   ''Opening Calculator...'') w
            else
              started_or_raise env ''gnome-calculator''
                (if creativity \<le> 3/10 then ''Opening Calculator...'' else ''Calculator ready for action!'') w)
         else if py_in ''browser'' command \<or> py_in ''chrome'' command then
           (Inr (Some (by_creativity w
                   ''Your digital gateway to the internet is now open! Happy browsing, explorer!''
                   ''Opening your web browser...''
                   ''Opening web browser...'')),
            w\<lparr>started := started w @ [''https://www.google.com'']\<rparr>)
         else if py_in ''file manager'' command \<or> py_in ''explorer'' command then
           (let prog = (if is_windows env then ''explorer.exe'' else ''nautilus'');
                response = (if is_windows env then ''Opening File Explorer...''
                            else ''Opening File Manager...'')
            in started_or_raise env prog
                 (by_creativity w
                    (emoji_folder @ '' '' @ py_remove ''...'' response
                       @ '' Time to organize those digital treasures!'')
                    (emoji_folder @ '' '' @ response)
                    response) w)
         else (Inr None, w))
      else if py_in ''volume'' command \<and> is_windows env then
        (if py_in ''up'' command then
           started_or_raise env ''powershell''
             (by_creativity w
                (emoji_loud @ '' Volume boosted! Hope your ears are ready for this!'')
                (emoji_loud @ '' Volume increased.'')
                ''Volume increased.'') w
         else if py_in ''down'' command then
           started_or_raise env ''powershell''
             (by_creativity w
                (emoji_quiet @ '' Toned it down a notch! Your neighbors will thank you.'')
                (emoji_quiet @ '' Volume decreased.'')
                ''Volume decreased.'') w
         else if py_in ''mute'' command then
           started_or_raise env ''powershell''
             (by_creativity w
                (emoji_mute @ '' Silence is golden! Volume has been muted/unmuted.'')
                (emoji_mute @ '' Volume muted/unmuted.'')
                ''Volume muted/unmuted.'') w
         else (Inr None, w))
      else if py_in ''screenshot'' command then
        (let prog = (if is_windows env then ''powershell'' else ''gnome-screenshot'')
         in case start env prog w of
              (None, w1) \<Rightarrow>
                (Inr (Some
                   (if is_windows env then
                      by_creativity w
                        (emoji_camera @ '' Say cheese! Screenshot captured and saved to your clipboard. Picture perfect!'')
                        (emoji_camera @ '' Screenshot taken and saved to clipboard.'')
                        ''Screenshot taken and saved to clipboard.''
                    else if creativity > 7/10
                      then emoji_camera @ '' Snapshot saved as screenshot.png! Another moment preserved in digital amber!''
                    else ''Screenshot saved as screenshot.png'')),
                 w1)
            | (Some e, w1) \<Rightarrow>
                (Inr (Some
                   (if creativity > 7/10
                    then emoji_camera @ '' Oops! My camera skills need some work. Screenshot failed to capture.''
                    else ''Unable to take screenshot.'')),
                 w1))
      else (Inr None, w))"

text \<open>The system-command stage of \<^verbatim>\<open>call_ai_api\<close>: the raised exception, \<open>Some\<close> answer, or
  \<open>None\<close> when the flow goes on to the model.\<close>

definition system_stage ::
  "env \<Rightarrow> bool \<Rightarrow> string \<Rightarrow> string \<Rightarrow> world \<Rightarrow> (exn + string option) \<times> world" where
  "system_stage env system_enabled current_model message_lower w =
     (let model_name = name_of (lookup_model current_model) in
      if system_enabled then
        (case execute_system_command env message_lower w of
           (Inl e, w1) \<Rightarrow> (Inl e, w1)
         | (Inr None, w1) \<Rightarrow> (Inr None, w1)
         | (Inr (Some system_result), w1) \<Rightarrow>
             if system_result \<noteq> [] then (Inr (Some (system_result @ using_suffix model_name)), w1)
             else (Inr None, w1))
      else if any_in [''open '', ''volume'', ''screenshot'', ''notepad'', ''calculator'',
                      ''browser'', ''chrome'', ''explorer'', ''file manager''] message_lower then
        (Inr (Some ((if creativity_level (conversation_engine w) > 7/10
                     then ''System commands are currently disabled for safety. You can re-enable them in the advanced settings if you want me to control apps or volume.''
                     else ''System commands are disabled. You can enable them in the advanced settings.'')
                    @ using_suffix model_name)), w)
      else (Inr None, w))"

section \<open>The fallback router\<close>

text \<open>\<^verbatim>\<open>reload_openrouter_token_from_env\<close>: the call is counted; a non-blank token of the
  environment becomes the API key and the result is \<open>True\<close>.\<close>

definition reload_openrouter_token_from_env :: "env \<Rightarrow> world \<Rightarrow> bool \<times> world" where
  "reload_openrouter_token_from_env env w =
     (let w1 = w\<lparr>reloads := Suc (reloads w)\<rparr>
      in case environ_token env (reloads w) of
           None \<Rightarrow> (False, w1)
         | Some tok \<Rightarrow> if py_strip tok \<noteq> [] then (True, w1\<lparr>api_key := Some (py_strip tok)\<rparr>)
                       else (False, w1))"

text \<open>The retry count: 2, or the configured \<^verbatim>\<open>retry_attempts\<close> when a settings manager is
  set, the value converts to an integer and is positive.\<close>

definition retry_attempts :: "world \<Rightarrow> nat" where
  "retry_attempts w =
     (case settings_manager w of
        None \<Rightarrow> 2
      | Some sm \<Rightarrow> (case py_int (sm_get sm ''retry_attempts'' (PInt 2)) of
                     None \<Rightarrow> 2
                   | Some cfg_attempts \<Rightarrow> if cfg_attempts > 0 then nat cfg_attempts else 2))"

text \<open>The body of the \<^verbatim>\<open>try\<close> of one primary attempt: the call, the test for an empty
  response, the clearing of the recorded error, the answer.\<close>

definition try_primary :: "env \<Rightarrow> string \<Rightarrow> string \<Rightarrow> world \<Rightarrow> (exn + string) \<times> world" where
  "try_primary env current_model model_name w =
     (case remote_call env current_model w of
        (Inl e, w1) \<Rightarrow> (Inl e, w1)
      | (Inr response, w1) \<Rightarrow>
          if py_strip response = [] then (Inl (Exception ''Empty response from OpenRouter model''), w1)
          else (case settings_manager w1 of
                  None \<Rightarrow> (Inr (response @ using_suffix model_name), w1)
                | Some sm \<Rightarrow>
                    (case clear_model_error current_model sm of
                       (Some e, sm1) \<Rightarrow> (Inl e, w1\<lparr>settings_manager := Some sm1\<rparr>)
                     | (None, sm1) \<Rightarrow>
                         (Inr (response @ using_suffix model_name),
                          w1\<lparr>settings_manager := Some sm1\<rparr>))))"

text \<open>\<^verbatim>\<open>try: settings_manager.set_model_error(current_model, last_err) except: pass\<close>.\<close>

definition record_error :: "string \<Rightarrow> string \<Rightarrow> world \<Rightarrow> world" where
  "record_error current_model last_err w =
     (case settings_manager w of
        None \<Rightarrow> w
      | Some sm \<Rightarrow> w\<lparr>settings_manager := Some (snd (set_model_error current_model last_err (clock w) sm)),
                      clock := clock w + 2\<rparr>)"

definition auth_error :: "string \<Rightarrow> bool" where
  "auth_error lower = any_in [''authentication'', ''authorization'', ''401'', ''403''] lower"

definition transient :: "string \<Rightarrow> bool" where
  "transient lower = any_in [''paused'', ''loading'', ''rate limit'', ''429''] lower"

text \<open>The primary loop, \<open>n\<close> attempts left. The result is \<open>Inl\<close> the answer returned from
  inside the loop, or \<open>Inr\<close> the last error when the loop ends.\<close>

fun primary_loop ::
  "env \<Rightarrow> string \<Rightarrow> string \<Rightarrow> nat \<Rightarrow> bool \<Rightarrow> string option \<Rightarrow> world
     \<Rightarrow> (string + string option) \<times> world" where
  "primary_loop env current_model model_name 0 did_reload_token last_err w = (Inr last_err, w)"
| "primary_loop env current_model model_name (Suc n) did_reload_token last_err w =
     (case try_primary env current_model model_name w of
        (Inr answer, w1) \<Rightarrow> (Inl answer, w1)
      | (Inl e, w1) \<Rightarrow>
          (let err = exn_str e;
               w2 = record_error current_model err w1;
               lower = py_lower err
           in if auth_error lower \<and> \<not> did_reload_token then
                (case reload_openrouter_token_from_env env w2 of
                   (True, w3) \<Rightarrow> primary_loop env current_model model_name n True (Some err) w3
                 | (False, w3) \<Rightarrow>
                     if \<not> transient lower then (Inr (Some err), w3)
                     else primary_loop env current_model model_name n did_reload_token (Some err) w3)
              else if \<not> transient lower then (Inr (Some err), w2)
              else primary_loop env current_model model_name n did_reload_token (Some err) w2))"

text \<open>\<^verbatim>\<open>_to_bool(v, default)\<close>. \<open>word_of\<close> is \<^verbatim>\<open>str(v)\<close> for the values whose text can be one
  of the recognised words (the text of a float has a point, that of a list or a
  dictionary has brackets).\<close>

fun word_of :: "pyval \<Rightarrow> string option" where
  "word_of (PInt i) = Some (str_int i)"
| "word_of (PStr s) = Some s"
| "word_of v = None"

definition to_bool :: "pyval \<Rightarrow> bool \<Rightarrow> bool" where
  "to_bool v dflt =
     (case v of
        PNone \<Rightarrow> dflt
      | PBool b \<Rightarrow> b
      | _ \<Rightarrow> (case word_of v of
                None \<Rightarrow> py_bool v
              | Some s \<Rightarrow>
                  if py_lower (py_strip s) \<in> set [''1'', ''true'', ''yes'', ''on''] then True
                  else if py_lower (py_strip s) \<in> set [''0'', ''false'', ''no'', ''off''] then False
                  else py_bool v))"

record recovery =
  rs_auto_fb :: bool
  rs_cap :: int
  rs_ignore_pings :: bool
  rs_priority_raw :: pyval

text \<open>The recovery settings are read in this order inside one \<^verbatim>\<open>try\<close>; when
  \<^verbatim>\<open>int(...)\<close> of the cap raises, the later ones keep their defaults.\<close>

definition recovery_settings :: "world \<Rightarrow> recovery" where
  "recovery_settings w =
     (case settings_manager w of
        None \<Rightarrow> \<lparr>rs_auto_fb = True, rs_cap = 3, rs_ignore_pings = False, rs_priority_raw = PStr []\<rparr>
      | Some sm \<Rightarrow>
          (let fb = to_bool (sm_get sm ''auto_fallback'' (PBool True)) True
           in case py_int (sm_get sm ''alt_attempt_cap'' (PInt 3)) of
                None \<Rightarrow> \<lparr>rs_auto_fb = fb, rs_cap = 3, rs_ignore_pings = False, rs_priority_raw = PStr []\<rparr>
              | Some c \<Rightarrow>
                  \<lparr>rs_auto_fb = fb, rs_cap = c,
                   rs_ignore_pings = to_bool (sm_get sm ''ignore_status_pings'' (PBool False)) False,
                   rs_priority_raw = (let p = sm_get sm ''alternate_priority'' (PStr [])
                                   in if py_bool p then p else PStr [])\<rparr>))"

definition is_openrouter :: "model_info \<Rightarrow> bool" where
  "is_openrouter info =
     (map_of info ''type'' = Some ''openrouter'' \<and> map_of info ''provider'' = Some ''openrouter'')"

text \<open>\<open>first_index xs x\<close> is \<^verbatim>\<open>xs.index(x)\<close>, and the length of \<open>xs\<close> when \<open>x\<close> does not
  occur. \<open>pr_index\<close> is the dictionary \<^verbatim>\<open>{mid: i for i, mid in enumerate(priority)}\<close> read
  with the default \<^verbatim>\<open>len(priority)\<close>: a repeated id keeps its last position.\<close>

fun first_index :: "'a list \<Rightarrow> 'a \<Rightarrow> nat" where
  "first_index [] x = 0"
| "first_index (y # ys) x = (if x = y then 0 else Suc (first_index ys x))"

definition pr_index :: "string list \<Rightarrow> string \<Rightarrow> nat" where
  "pr_index priority mid =
     (if mid \<in> set priority then length priority - 1 - first_index (rev priority) mid
      else length priority)"

definition alt_models :: "world \<Rightarrow> string \<Rightarrow> pyval \<Rightarrow> (string \<times> model_info) list" where
  "alt_models w current_model praw =
     (let candidates = filter (\<lambda>(mid, info). mid \<noteq> current_model \<and> is_openrouter info)
                         (get_ui_available_models w)
      in case praw of
           PStr s \<Rightarrow> (if comma_items s \<noteq> []
                      then sort_key (\<lambda>(mid, info). pr_index (comma_items s) mid) candidates
                      else candidates)
         | _ \<Rightarrow> candidates)"

text \<open>A successful alternate becomes the selected model.\<close>

definition switch_to :: "string \<Rightarrow> world \<Rightarrow> world" where
  "switch_to alt_id w =
     w\<lparr>settings_manager := map_option (sm_set ''current_ai_model'' (PStr alt_id)) (settings_manager w),
       advanced_settings := (advanced_settings w)\<lparr>adv_current_model := alt_id\<rparr>\<rparr>"

definition auto_switched :: "string \<Rightarrow> string \<Rightarrow> string" where
  "auto_switched alt_resp alt_name =
     alt_resp @ [CHR 0x0A, CHR 0x0A] @ ''[Using: '' @ alt_name @ '' (Auto-switched)]''"

text \<open>
  The first walk calls \<^verbatim>\<open>hf_api.query_model(alt_id, original_message)\<close>. No module of the
  repository binds the name \<^verbatim>\<open>hf_api\<close>, so evaluating it raises NameError before any
  request is sent; the handlers of the walk are those of the source.
\<close>

definition hf_api_query_model :: "exn + string" where
  "hf_api_query_model = Inl (NameError ''hf_api'')"

fun first_walk ::
  "int \<Rightarrow> int \<Rightarrow> (string \<times> model_info) list \<Rightarrow> world \<Rightarrow> (string + int) \<times> world" where
  "first_walk cap tried [] w = (Inr tried, w)"
| "first_walk cap tried ((alt_id, alt_info) # rest) w =
     (if tried \<ge> cap then (Inr tried, w)
      else (case hf_api_query_model of
              Inr alt_resp \<Rightarrow>
                (Inl (auto_switched alt_resp (dict_get alt_info ''name'' alt_id)), switch_to alt_id w)
            | Inl (HFRequestError code msg) \<Rightarrow>
                if code = 404 then first_walk cap tried rest w
                else first_walk cap (tried + 1) rest w
            | Inl e \<Rightarrow> first_walk cap (tried + 1) rest w))"

text \<open>The candidates of the second walk: the ids of \<^verbatim>\<open>HF_ALT_MODELS\<close> that are remote
  models of the catalog, or else all other remote models of the catalog, ordered by the
  priority list.\<close>

definition direct_list :: "env \<Rightarrow> world \<Rightarrow> string \<Rightarrow> string list \<Rightarrow> string list" where
  "direct_list env w current_model priority =
     (let ui = get_ui_available_models w;
          from_env = filter (\<lambda>alt. alt \<noteq> current_model
                                 \<and> (case map_of ui alt of Some info \<Rightarrow> is_openrouter info | None \<Rightarrow> False))
                       (comma_items (hf_alt_models env));
          chosen = (if from_env \<noteq> [] then from_env
                    else map fst (filter (\<lambda>(mid, info). mid \<noteq> current_model \<and> is_openrouter info) ui))
      in if priority \<noteq> [] then sort_key (first_index priority) chosen else chosen)"

text \<open>
  The second walk calls \<^verbatim>\<open>openrouter_api.query_model\<close>. Its first handler is
  \<^verbatim>\<open>except OpenRouterRequestError\<close>, a name that no module binds: when the call raises,
  matching the exception against the handler raises NameError, which leaves the walk
  for the enclosing \<^verbatim>\<open>except Exception: pass\<close>. The result is \<open>Inl\<close> that exception,
  or \<open>Inr\<close> the answer of a successful alternate, or \<open>Inr None\<close> at the end of the list.
\<close>

fun second_walk ::
  "env \<Rightarrow> world \<Rightarrow> string \<Rightarrow> int \<Rightarrow> int \<Rightarrow> string list \<Rightarrow> world
     \<Rightarrow> (exn + string option) \<times> world" where
  "second_walk env w0 current_model cap tried [] w = (Inr None, w)"
| "second_walk env w0 current_model cap tried (alt_id # rest) w =
     (if alt_id = current_model \<or> tried \<ge> cap then second_walk env w0 current_model cap tried rest w
      else (case remote_call env alt_id w of
              (Inr alt_resp, w1) \<Rightarrow>
                (Inr (Some (auto_switched alt_resp
                        (dict_get (dict_get (get_ui_available_models w0) alt_id []) ''name'' alt_id))),
                 switch_to alt_id w1)
            | (Inl e, w1) \<Rightarrow> (Inl (NameError ''OpenRouterRequestError''), w1)))"

text \<open>The alternates stage: \<open>Some\<close> answer of an alternate, or \<open>None\<close> for the local
  fallback.\<close>

definition alternates :: "env \<Rightarrow> string \<Rightarrow> string option \<Rightarrow> world \<Rightarrow> string option \<times> world" where
  "alternates env current_model last_err w =
     (let lower = py_lower (case last_err of None \<Rightarrow> [] | Some s \<Rightarrow> s);
          rs = recovery_settings w;
          proceed_to_alts = (py_in ''paused'' lower \<or> py_in ''loading'' lower \<or> rs_ignore_pings rs)
      in if rs_auto_fb rs \<and> rs_cap rs > 0 \<and> proceed_to_alts then
           (case first_walk (rs_cap rs) 0 (alt_models w current_model (rs_priority_raw rs)) w of
              (Inl answer, w1) \<Rightarrow> (Some answer, w1)
            | (Inr tried, w1) \<Rightarrow>
                if tried < rs_cap rs then
                  (case rs_priority_raw rs of
                     PStr s \<Rightarrow>
                       (case second_walk env w1 current_model (rs_cap rs) tried
                               (direct_list env w1 current_model (comma_items s)) w1 of
                          (Inr answer, w2) \<Rightarrow> (answer, w2)
                        | (Inl e, w2) \<Rightarrow> (None, w2))
                   | _ \<Rightarrow> (None, w1))
                else (None, w1))
         else (None, w))"

definition local_fallback :: "env \<Rightarrow> string \<Rightarrow> string option \<Rightarrow> world \<Rightarrow> string \<times> world" where
  "local_fallback env original_message last_err w =
     (let fallback_msg = ''OpenRouter model error: ''
            @ (case last_err of
                 None \<Rightarrow> ''unknown error''
               | Some s \<Rightarrow> if s \<noteq> [] then first_line s else ''unknown error'');
          (fallback_response, w1) =
            generate_response env (''[SYSTEM: '' @ fallback_msg @ ''] '' @ original_message) w
      in (fallback_response @ [CHR 0x0A, CHR 0x0A] @ ''[Using: Local Conversation Engine (Fallback)]'',
          w1))"

definition trouble_connecting :: "string \<Rightarrow> string" where
  "trouble_connecting model_name =
     ''I'm having trouble connecting to any AI models right now. Please try again later.''
     @ using_suffix model_name"

text \<open>
  The model stage of \<^verbatim>\<open>call_ai_api\<close>, from the descriptor lookup to the end: the remote
  branch (primary loop, alternates, local fallback), the local branch, and the outer
  \<^verbatim>\<open>except Exception\<close>, which in this model only the KeyError of \<open>clear_model_error\<close> in
  the local branch reaches.
\<close>

definition model_stage :: "env \<Rightarrow> string \<Rightarrow> string \<Rightarrow> world \<Rightarrow> string \<times> world" where
  "model_stage env original_message current_model w =
     (let current_model_info = lookup_model current_model;
          model_name = name_of current_model_info
      in if map_of current_model_info ''type'' = Some ''openrouter'' then
           (case primary_loop env current_model model_name (retry_attempts w) False None w of
              (Inl answer, w1) \<Rightarrow> (answer, w1)
            | (Inr last_err, w1) \<Rightarrow>
                (case alternates env current_model last_err w1 of
                   (Some answer, w2) \<Rightarrow> (answer, w2)
                 | (None, w2) \<Rightarrow> local_fallback env original_message last_err w2))
         else
           (case generate_response env original_message w of
              (response, w1) \<Rightarrow>
                (case settings_manager w1 of
                   None \<Rightarrow> (response @ using_suffix model_name, w1)
                 | Some sm \<Rightarrow>
                     (case clear_model_error current_model sm of
                        (Some e, sm1) \<Rightarrow>
                          (trouble_connecting model_name, w1\<lparr>settings_manager := Some sm1\<rparr>)
                      | (None, sm1) \<Rightarrow>
                          (response @ using_suffix model_name,
                           w1\<lparr>settings_manager := Some sm1\<rparr>)))))"

section \<open>The entry point\<close>

text \<open>The dispatcher of \<^verbatim>\<open>call_ai_api\<close>: the rules before the model stage, in the order
  of the source. The result is the exception raised, \<open>Some\<close> answer, or \<open>None\<close> for a
  general message, which goes on to the model stage.\<close>

definition dispatch ::
  "env \<Rightarrow> string \<Rightarrow> bool \<Rightarrow> bool \<Rightarrow> int \<Rightarrow> string \<Rightarrow> world
     \<Rightarrow> (exn + string option) \<times> world" where
  "dispatch env message_lower search_enabled system_enabled search_limit current_model w =
     (if asks_identity message_lower then (Inr (Some (identity_answer w current_model)), w)
      else if py_in ''weather'' message_lower
        then (Inr (Some (weather_answer env w current_model message_lower)), w)
      else (case search_stage env w search_enabled search_limit current_model message_lower of
              Some answer \<Rightarrow> (Inr (Some answer), w)
            | None \<Rightarrow> system_stage env system_enabled current_model message_lower w))"

text \<open>\<^verbatim>\<open>model_id or advanced_settings.get('current_model', 'local_engine')\<close>.\<close>

definition selected_model :: "string option \<Rightarrow> world \<Rightarrow> string" where
  "selected_model model_id w =
     (case model_id of
        Some m \<Rightarrow> if m \<noteq> [] then m else adv_current_model (advanced_settings w)
      | None \<Rightarrow> adv_current_model (advanced_settings w))"

text \<open>The dispatcher on the arguments of \<^verbatim>\<open>call_ai_api\<close>; an omitted argument is \<open>None\<close>.\<close>

definition classify ::
  "env \<Rightarrow> string \<Rightarrow> bool option \<Rightarrow> bool option \<Rightarrow> int option \<Rightarrow> string option \<Rightarrow> world
     \<Rightarrow> (exn + string option) \<times> world" where
  "classify env message enable_search enable_system_commands search_results_limit model_id w =
     (let search_enabled = (case enable_search of
                              Some b \<Rightarrow> b | None \<Rightarrow> adv_enable_search (advanced_settings w));
          system_enabled = (case enable_system_commands of
                              Some b \<Rightarrow> b
                            | None \<Rightarrow> adv_enable_system_commands (advanced_settings w));
          search_limit = (case search_results_limit of
                            Some n \<Rightarrow> if n \<noteq> 0 then n
                                      else adv_search_results_limit (advanced_settings w)
                          | None \<Rightarrow> adv_search_results_limit (advanced_settings w))
      in dispatch env (py_strip (py_lower message)) search_enabled system_enabled search_limit
           (selected_model model_id w) w)"

text \<open>
  \<^verbatim>\<open>call_ai_api(message, enable_search, enable_system_commands, search_results_limit,
  model_id)\<close>. The result is \<open>Inl\<close> the exception that leaves the function, or \<open>Inr\<close> the
  returned text.
\<close>

definition call_ai_api ::
  "env \<Rightarrow> string \<Rightarrow> bool option \<Rightarrow> bool option \<Rightarrow> int option \<Rightarrow> string option \<Rightarrow> world
     \<Rightarrow> (exn + string) \<times> world" where
  "call_ai_api env message enable_search enable_system_commands search_results_limit model_id w =
     (case classify env message enable_search enable_system_commands search_results_limit
             model_id w of
        (Inl e, w1) \<Rightarrow> (Inl e, w1)
      | (Inr (Some answer), w1) \<Rightarrow> (Inr answer, w1)
      | (Inr None, w1) \<Rightarrow>
          (case model_stage env message (selected_model model_id w) w1 of
             (answer, w2) \<Rightarrow> (Inr answer, w2)))"

text \<open>A general message is one that the dispatcher hands to the model stage.\<close>

definition general_message ::
  "env \<Rightarrow> string \<Rightarrow> bool option \<Rightarrow> bool option \<Rightarrow> int option \<Rightarrow> string option \<Rightarrow> world
     \<Rightarrow> bool" where
  "general_message env message enable_search enable_system_commands search_results_limit model_id w =
     (fst (classify env message enable_search enable_system_commands search_results_limit
             model_id w) = Inr None)"

section \<open>Scenarios\<close>

text \<open>The initial \<open>advanced_settings\<close> of the module, a settings manager as its
  constructor leaves it (with the catalog and the recovery defaults of
  \<open>default_settings\<close>), and worlds and environments for the scenarios of the claims.\<close>

definition default_advanced :: advanced where
  "default_advanced =
     \<lparr>adv_enable_search = True, adv_enable_system_commands = True, adv_search_results_limit = 3,
      adv_conversation_memory = 10, adv_response_delay = 1/10, adv_current_model = ''local_engine'',
      adv_remember_local_profile = True\<rparr>"

definition default_ui_models :: catalog where
  "default_ui_models =
     [(''local_engine'',
       [(''name'', ''Conversation Engine''),
        (''type'', ''local''),
        (''description'', ''Fast local responses with advanced pattern matching and creativity controls''),
        (''status'', ''active'')]),
      (''local/mistral-7b-instruct'',
       [(''name'', ''Mistral 7B''),
        (''type'', ''local''),
        (''description'', ''Local 7B parameter model with excellent performance, runs entirely on your hardware''),
        (''status'', ''available'')]),
      (''local/llama-3.1-8b-instruct'',
       [(''name'', ''Llama 3.1 8B''),
        (''type'', ''local''),
        (''description'', ''Latest local 8B model with strong reasoning capabilities, runs entirely on your hardware''),
        (''status'', ''available'')]),
      (''local/qwen-2.5-7b-instruct'',
       [(''name'', ''Qwen 2.5 7B''),
        (''type'', ''local''),
        (''description'', ''Local 7B model with strong multilingual capabilities, runs entirely on your hardware''),
        (''status'', ''available'')]),
      (''local/deepseek-coder-6.7b'',
       [(''name'', ''DeepSeek Coder 6.7B''),
        (''type'', ''local''),
        (''description'', ''Local 6.7B model optimized for coding and programming tasks, runs entirely on your hardware''),
        (''status'', ''available'')]),
      (''deepseek/deepseek-r1-0528:free'',
       [(''name'', ''DeepSeek R1''),
        (''type'', ''openrouter''),
        (''description'', ''DeepSeek's latest conversational model optimized for chat interactions and instruction following''),
        (''status'', ''available'')]),
      (''openai/gpt-oss-20b:free'',
       [(''name'', ''OpenAI GPT-OSS 20B''),
        (''type'', ''openrouter''),
        (''description'', ''Open-source 20B parameter language model based on GPT architecture with strong general-purpose capabilities''),
        (''status'', ''available'')]),
      (''openai/gpt-oss-120b:free'',
       [(''name'', ''OpenAI GPT-OSS 120B''),
        (''type'', ''openrouter''),
        (''description'', ''Larger GPT-OSS 120B parameter model for more demanding reasoning and generation tasks''),
        (''status'', ''available'')])]"

definition default_settings :: "string \<rightharpoonup> pyval" where
  "default_settings =
     [''current_ai_model'' \<mapsto> PStr ''local_engine'',
      ''auto_fallback'' \<mapsto> PBool True,
      ''retry_attempts'' \<mapsto> PInt 2,
      ''alt_attempt_cap'' \<mapsto> PInt 3,
      ''ignore_status_pings'' \<mapsto> PBool False,
      ''alternate_priority'' \<mapsto> PStr []]"

definition fresh_settings_manager :: settings_manager where
  "fresh_settings_manager =
     \<lparr>settings = default_settings, ui_models = Some default_ui_models,
      stored_errors = Some Map.empty, model_errors = Map.empty, model_status = Map.empty\<rparr>"

definition start_world :: "rat \<Rightarrow> settings_manager option \<Rightarrow> world" where
  "start_world level sm =
     \<lparr>conversation_engine = init_engine level, advanced_settings = default_advanced,
      settings_manager = sm, api_key = None, posts = [], reloads = 0, draws = 0, clock = 0,
      started = [], profile_file = None\<rparr>"

definition scripted_env :: "(nat \<Rightarrow> string \<Rightarrow> http_result) \<Rightarrow> string option \<Rightarrow> bool \<Rightarrow> env" where
  "scripted_env script token startable =
     \<lparr>http_post = script, environ_token = (\<lambda>n. token), hf_alt_models = [],
      rnd = (\<lambda>k. 0), isoformat = (\<lambda>t. ''2025-01-01T00:00:00''),
      weather_text = (\<lambda>level city. ''Weather in '' @ city @ '': Clear Sky''),
      search_text = (\<lambda>query limit. ''Search results for '' @ query),
      is_windows = False, can_start = (\<lambda>prog. startable), disk_ok = True\<rparr>"

definition http_error :: "int \<Rightarrow> string \<Rightarrow> http_result" where
  "http_error code txt =
     Response \<lparr>status_code = code, content = Inl [], err_text = txt, err_detail = txt\<rparr>"

definition http_ok :: "string \<Rightarrow> http_result" where
  "http_ok txt = Response \<lparr>status_code = 200, content = Inr txt, err_text = [], err_detail = []\<rparr>"

text \<open>A catalog as a user may configure it: the three remote models of the constant
  catalog and a fourth one, each with its provider.\<close>

definition four_remote_models :: catalog where
  "four_remote_models =
     [(''local_engine'',
       [(''name'', ''Local Conversation Engine''), (''type'', ''local''), (''provider'', ''local'')]),
      (''openai/gpt-oss-20b:free'',
       [(''name'', ''OpenAI GPT-OSS 20B''), (''type'', ''openrouter''), (''provider'', ''openrouter'')]),
      (''deepseek/deepseek-r1-0528:free'',
       [(''name'', ''DeepSeek R1''), (''type'', ''openrouter''), (''provider'', ''openrouter'')]),
      (''openai/gpt-oss-120b:free'',
       [(''name'', ''OpenAI GPT-OSS 120B''), (''type'', ''openrouter''), (''provider'', ''openrouter'')]),
      (''mistralai/mistral-7b-instruct:free'',
       [(''name'', ''Mistral 7B Instruct''), (''type'', ''openrouter''), (''provider'', ''openrouter'')])]"

text \<open>The primary model's endpoint is paused, the first alternate answers 404 and the
  other alternates answer.\<close>

definition paused_primary_script :: "nat \<Rightarrow> string \<Rightarrow> http_result" where
  "paused_primary_script n model_id =
     (if model_id = ''openai/gpt-oss-20b:free'' then http_error 400 ''endpoint paused''
      else if model_id = ''deepseek/deepseek-r1-0528:free'' then http_error 404 ''Not Found''
      else http_ok ''Hello from an alternate model'')"

section \<open>Auxiliary notions for the proofs\<close>

text \<open>\<open>newest k xs\<close> is the list of the last \<open>k\<close> elements of \<open>xs\<close>. A state
  is \<open>quiet\<close> with respect to another when it has the same requests, reloads and engine.
  A result of the system-command code is \<open>tidy\<close> when it is quiet, a \<open>None\<close> result
  leaves the state as it was and a returned text is not empty. A text is \<open>suffixed\<close>
  when it ends with a \<open>[Using: ...]\<close> line, and \<open>suffixed_by\<close> a name when that line
  carries the name. \<open>config\<close> is the part of the state that the router reads
  its settings from.\<close>

definition newest :: "nat \<Rightarrow> 'a list \<Rightarrow> 'a list" where
  "newest k xs = drop (length xs - k) xs"

definition quiet :: "world \<Rightarrow> world \<Rightarrow> bool" where
  "quiet w w1 = (posts w1 = posts w \<and> reloads w1 = reloads w
                 \<and> conversation_engine w1 = conversation_engine w)"

definition tidy :: "world \<Rightarrow> (exn + string option) \<times> world \<Rightarrow> bool" where
  "tidy w r = (quiet w (snd r)
               \<and> (case fst r of Inl e \<Rightarrow> True | Inr None \<Rightarrow> snd r = w | Inr (Some s) \<Rightarrow> s \<noteq> []))"

definition suffixed_by :: "string \<Rightarrow> string \<Rightarrow> bool" where
  "suffixed_by name s = (\<exists>t. s = t @ using_suffix name)"


definition config ::
  "world \<Rightarrow> (string \<rightharpoonup> pyval) option \<times> catalog option option \<times> advanced" where
  "config w = (map_option settings (settings_manager w), map_option ui_models (settings_manager w),
               advanced_settings w)"

text \<open>The two error kinds of the claims, as \<open>query_model\<close> raises them.\<close>

definition rate_limit_failure :: "exn + string" where
  "rate_limit_failure = Inl (HFRequestError 429 ''HF rate limit exceeded'')"


text \<open>An error text that the router's substring tests take both for an authentication
  error and for a transient one.\<close>

definition mixed_signal :: "string \<Rightarrow> bool" where
  "mixed_signal t = (auth_error (py_lower t) \<and> transient (py_lower t))"


section \<open>Conversation memory is a bounded FIFO\<close>

lemma add_to_memory_max [simp]: "max_memory (add_to_memory u r t e) = max_memory e"
  by (simp add: add_to_memory_def Let_def)

lemma newest_drop1:
  assumes "k < length zs"
  shows "newest k (drop 1 zs) = newest k zs"
proof -
  have "Suc (length zs - Suc k) = length zs - k" using assms by arith
  then show ?thesis by (simp add: newest_def)
qed

lemma newest_tl: "length zs = Suc k \<Longrightarrow> newest k zs = tl zs"
  by (simp add: newest_def drop_Suc)

lemma newest_all: "length zs \<le> k \<Longrightarrow> newest k zs = zs"
  by (simp add: newest_def)

lemma newest_step:
  assumes "length xs \<le> k"
  shows "newest k (newest k (xs @ [x]) @ ys) = newest k (xs @ x # ys)"
proof (cases "length xs = k")
  case True
  have a: "newest k (xs @ [x]) = tl (xs @ [x])"
    using newest_tl[of "xs @ [x]" k] True by simp
  have b: "tl (xs @ [x]) @ ys = drop 1 (xs @ x # ys)"
    by (cases xs) simp_all
  have "k < length (xs @ x # ys)" using True by simp
  from newest_drop1[OF this] show ?thesis by (simp only: a b)
next
  case False
  with assms have "length (xs @ [x]) \<le> k" by simp
  from newest_all[OF this] show ?thesis by simp
qed

lemma add_to_memory_newest:
  assumes "int (length (context_memory e)) \<le> max_memory e"
  shows "context_memory (add_to_memory u r t e) =
         newest (nat (max_memory e)) (context_memory e @ [memory_entry u r t])"
proof (cases "length (context_memory e) = nat (max_memory e)")
  case True
  then have "length (context_memory e @ [memory_entry u r t]) = Suc (nat (max_memory e))"
    by simp
  from newest_tl[OF this] show ?thesis
    using True assms by (simp add: add_to_memory_def Let_def)
next
  case False
  with assms have lt: "int (length (context_memory e)) < max_memory e" by linarith
  then have "length (context_memory e @ [memory_entry u r t]) \<le> nat (max_memory e)"
    by simp
  from newest_all[OF this] show ?thesis
    using lt by (simp add: add_to_memory_def Let_def)
qed

lemma add_to_memory_bound:
  assumes "int (length (context_memory e)) \<le> max_memory e"
  shows "int (length (context_memory (add_to_memory u r t e))) \<le> max_memory e"
  using assms by (simp add: add_to_memory_def Let_def)

text \<open>The bound on the memory holds for a new engine and is kept by every operation of
  the engine that writes the memory or the bound.\<close>

lemma init_engine_bound:
  "int (length (context_memory (init_engine level))) \<le> max_memory (init_engine level)"
  by (simp add: init_engine_def)

lemma trim_bound:
  assumes "0 < max_memory x"
  shows "int (length (context_memory
            (if int (length (context_memory x)) > max_memory x
             then x\<lparr>context_memory := last_n (max_memory x) (context_memory x)\<rparr> else x)))
         \<le> max_memory
            (if int (length (context_memory x)) > max_memory x
             then x\<lparr>context_memory := last_n (max_memory x) (context_memory x)\<rparr> else x)"
  using assms by (simp add: last_n_def)

lemma set_memory_size_bound:
  "int (length (context_memory (set_memory_size sz e))) \<le> max_memory (set_memory_size sz e)"
  unfolding set_memory_size_def Let_def
  by (rule trim_bound) simp

lemma max_memory_case_list:
  "max_memory (case v of PList xs \<Rightarrow> e\<lparr>context_memory := xs\<rparr> | _ \<Rightarrow> e) = max_memory e"
  by (cases v) simp_all

lemma max_memory_case_dict:
  "max_memory (case v of PDict p \<Rightarrow> e\<lparr>user_profile := p\<rparr> | _ \<Rightarrow> e) = max_memory e"
  by (cases v) simp_all

lemma max_memory_case_int:
  "0 < max_memory e \<Longrightarrow>
   0 < max_memory (case r of Some n \<Rightarrow> e\<lparr>max_memory := max 5 (min 50 n)\<rparr> | None \<Rightarrow> e)"
  by (cases r) simp_all

lemma load_from_dict_bound:
  assumes "0 < max_memory e"
  shows "int (length (context_memory (load_from_dict data e)))
           \<le> max_memory (load_from_dict data e)"
  unfolding load_from_dict_def Let_def
  by (rule trim_bound, rule max_memory_case_int)
     (simp add: max_memory_case_list max_memory_case_dict assms)

lemma add_turns_memory:
  "int (length (context_memory e)) \<le> max_memory e \<Longrightarrow>
   context_memory (add_turns turns e) =
     newest (nat (max_memory e)) (context_memory e @ map (\<lambda>(u, r, t). memory_entry u r t) turns)
   \<and> max_memory (add_turns turns e) = max_memory e"
proof (induction turns arbitrary: e)
  case Nil
  then show ?case by (simp add: newest_def)
next
  case (Cons turn turns)
  obtain u r t where turn: "turn = (u, r, t)" by (cases turn) auto
  let ?e = "add_to_memory u r t e"
  have bound: "int (length (context_memory ?e)) \<le> max_memory ?e"
    using add_to_memory_bound[OF Cons.prems] by simp
  have len: "length (context_memory e) \<le> nat (max_memory e)"
    using Cons.prems by linarith
  show ?case
    using Cons.IH[OF bound] Cons.prems
    by (simp add: turn add_to_memory_newest newest_step[OF len])
qed

text \<open>
  Claim C6. After a sequence of \<open>N\<close> turns with \<open>N\<close> above the memory bound, on an engine
  whose memory respected the bound before, the conversation memory holds exactly
  \<open>max_memory\<close> entries, and they are the entries of the most recent \<open>max_memory\<close> of the
  \<open>N\<close> turns in their order: the oldest are evicted first.
\<close>

theorem memory_bound_fifo:
  assumes "int (length (context_memory e)) \<le> max_memory e"
    and "int (length turns) > max_memory e"
  shows "int (length (context_memory (add_turns turns e))) = max_memory e \<and>
         context_memory (add_turns turns e) =
           drop (length turns - nat (max_memory e)) (map (\<lambda>(u, r, t). memory_entry u r t) turns) \<and>
         max_memory (add_turns turns e) = max_memory e"
proof -
  let ?new = "map (\<lambda>(u, r, t). memory_entry u r t) turns"
  let ?k = "nat (max_memory e)"
  have nonneg: "0 \<le> max_memory e" using assms(1) by linarith
  have mem: "context_memory (add_turns turns e) = newest ?k (context_memory e @ ?new)"
    and mx: "max_memory (add_turns turns e) = max_memory e"
    using add_turns_memory[OF assms(1)] by auto
  have le: "?k \<le> length turns" using assms(2) by linarith
  have eq: "newest ?k (context_memory e @ ?new) = drop (length turns - ?k) ?new"
    using le by (simp add: newest_def)
  have len: "int (length (drop (length turns - ?k) ?new)) = max_memory e"
    using le nonneg by simp
  show ?thesis using mem mx eq len by simp
qed

theorem memory_bound_fifo_witness:
  "int (length (context_memory (set_memory_size 5 (init_engine (7/10)))))
     \<le> max_memory (set_memory_size 5 (init_engine (7/10)))
   \<and> int (length [(''A'', ''r1'', ''t1''), (''b'', ''r2'', ''t2''), (''c'', ''r3'', ''t3''),
                    (''d'', ''r4'', ''t4''), (''e'', ''r5'', ''t5''), (''f'', ''r6'', ''t6'')])
     > max_memory (set_memory_size 5 (init_engine (7/10)))
   \<and> context_memory
        (add_turns [(''A'', ''r1'', ''t1''), (''b'', ''r2'', ''t2''), (''c'', ''r3'', ''t3''),
                    (''d'', ''r4'', ''t4''), (''e'', ''r5'', ''t5''), (''f'', ''r6'', ''t6'')]
           (set_memory_size 5 (init_engine (7/10))))
      = [memory_entry ''b'' ''r2'' ''t2'', memory_entry ''c'' ''r3'' ''t3'',
         memory_entry ''d'' ''r4'' ''t4'', memory_entry ''e'' ''r5'' ''t5'',
         memory_entry ''f'' ''r6'' ''t6'']"
  using memory_bound_fifo [of "set_memory_size 5 (init_engine (7/10))"
      "[(''A'', ''r1'', ''t1''), (''b'', ''r2'', ''t2''), (''c'', ''r3'', ''t3''),
        (''d'', ''r4'', ''t4''), (''e'', ''r5'', ''t5''), (''f'', ''r6'', ''t6'')]"]
  by (simp add: set_memory_size_def init_engine_def Let_def)

section \<open>Saving and loading the profile\<close>

text \<open>
  Claim C7. For an engine whose \<open>max_memory\<close> lies in \<open>[5, 50]\<close> and whose memory is
  no longer than \<open>max_memory\<close>, loading the dictionary made by \<open>to_dict\<close> into any engine
  gives that engine the same \<open>context_memory\<close>, \<open>user_profile\<close> and \<open>max_memory\<close>.
\<close>

theorem profile_round_trip:
  assumes "5 \<le> max_memory e" and "max_memory e \<le> 50"
    and "int (length (context_memory e)) \<le> max_memory e"
  shows "load_from_dict (PDict (to_dict e)) e0 =
           e0\<lparr>context_memory := context_memory e,
              user_profile := user_profile e,
              max_memory := max_memory e\<rparr>"
  using assms by (simp add: load_from_dict_def to_dict_def dict_get_def Let_def)

theorem profile_round_trip_witness:
  "load_from_dict
     (PDict (to_dict \<lparr>creativity_level = 2/10,
                      context_memory = [memory_entry ''hi'' ''Hello!'' ''t0''],
                      max_memory = 5,
                      user_profile = [(''name'', PStr ''Ann'')]\<rparr>))
     (init_engine (7/10))
   = \<lparr>creativity_level = 7/10,
      context_memory = [memory_entry ''hi'' ''Hello!'' ''t0''],
      max_memory = 5,
      user_profile = [(''name'', PStr ''Ann'')]\<rparr>"
  using profile_round_trip [of "\<lparr>creativity_level = 2/10,
                      context_memory = [memory_entry ''hi'' ''Hello!'' ''t0''],
                      max_memory = 5,
                      user_profile = [(''name'', PStr ''Ann'')]\<rparr>" "init_engine (7/10)"]
  by (simp add: init_engine_def)

section \<open>Low creativity is deterministic\<close>

lemma analyze_intent_cases:
  "analyze_intent m \<in> {''greetings'', ''how_are_you'', ''thanks'', ''compliments'',
                         ''capabilities'', ''farewells'', ''confused'', ''default''}"
  by (simp add: analyze_intent_def Let_def)

lemma conservative_nonempty:
  assumes "i \<in> {''greetings'', ''how_are_you'', ''thanks'', ''compliments'',
                 ''capabilities'', ''farewells'', ''confused'', ''default''}"
  shows "response_set i ''conservative'' \<noteq> []"
  using assms
  by (auto simp: response_set_def response_patterns_def tier_list_def dict_get_def
      greetings_patterns_def how_are_you_patterns_def thanks_patterns_def capabilities_patterns_def
      confused_patterns_def default_responses_patterns_def)

text \<open>
  Claim C8. At a creativity level of at most 0.3 the generated response is the first
  candidate of the conservative list selected for the message's intent, that list is
  not empty, and the response is the same for every environment (random draws, clock)
  and every state with such a level: nothing is mixed in and no flourish is appended.
\<close>

theorem conservative_deterministic:
  assumes "creativity_level (conversation_engine w) \<le> 3/10"
  shows "fst (generate_response env message w) =
           response_set (analyze_intent message) ''conservative'' ! 0
         \<and> response_set (analyze_intent message) ''conservative'' \<noteq> []
         \<and> (\<forall>env' w'. creativity_level (conversation_engine w') \<le> 3/10 \<longrightarrow>
               fst (generate_response env' message w') = fst (generate_response env message w))"
proof -
  have ne: "response_set (analyze_intent message) ''conservative'' \<noteq> []"
    using conservative_nonempty[OF analyze_intent_cases] .
  have gen: "fst (generate_response env' message w') =
             response_set (analyze_intent message) ''conservative'' ! 0"
    if "creativity_level (conversation_engine w') \<le> 3/10" for env' w'
    using that ne
    by (simp add: generate_response_def get_creativity_tier_def select_response_def Let_def
        split: prod.splits)
  show ?thesis using gen[OF assms] ne gen by simp
qed

theorem conservative_deterministic_witness:
  "creativity_level (conversation_engine (start_world (2/10) None)) \<le> 3/10
   \<and> fst (generate_response (scripted_env (\<lambda>n m. http_ok ''Hi'') None True) ''hello''
            (start_world (2/10) None))
     = ''Hello! How can I assist you today?''"
proof -
  have h: "creativity_level (conversation_engine (start_world (2/10) None)) \<le> 3/10"
    by (simp add: start_world_def init_engine_def)
  have v: "response_set (analyze_intent ''hello'') ''conservative'' ! 0
           = ''Hello! How can I assist you today?''"
    by code_simp
  show ?thesis
    using h v conservative_deterministic [OF h, of "scripted_env (\<lambda>n m. http_ok ''Hi'') None True" "''hello''"]
    by simp
qed

section \<open>Substrings survive lower-casing and stripping\<close>

lemma py_in_iff: "py_in sub s \<longleftrightarrow> (\<exists>a b. s = a @ sub @ b)"
proof (induction s)
  case Nil
  then show ?case by auto
next
  case (Cons c cs)
  show ?case
  proof
    assume "py_in sub (c # cs)"
    then consider "prefix sub (c # cs)" | "py_in sub cs" by auto
    then show "\<exists>a b. c # cs = a @ sub @ b"
    proof cases
      case 1
      then obtain b where "c # cs = sub @ b" by (auto simp: prefix_def)
      then have "c # cs = [] @ sub @ b" by simp
      then show ?thesis by blast
    next
      case 2
      with Cons.IH obtain a b where "cs = a @ sub @ b" by auto
      then have "c # cs = (c # a) @ sub @ b" by simp
      then show ?thesis by blast
    qed
  next
    assume "\<exists>a b. c # cs = a @ sub @ b"
    then obtain a b where ab: "c # cs = a @ sub @ b" by auto
    show "py_in sub (c # cs)"
    proof (cases a)
      case Nil
      with ab have "prefix sub (c # cs)" by (simp add: prefix_def)
      then show ?thesis by simp
    next
      case (Cons x a')
      with ab have "cs = a' @ sub @ b" by simp
      with Cons.IH have "py_in sub cs" by blast
      then show ?thesis by simp
    qed
  qed
qed

lemma py_in_lower:
  assumes "py_in sub s" and "\<forall>c\<in>set sub. lower_char c = c"
  shows "py_in sub (py_lower s)"
proof -
  from assms(1) obtain a b where "s = a @ sub @ b" by (auto simp: py_in_iff)
  moreover have "map lower_char sub = sub" using assms(2) by (simp add: map_idI)
  ultimately have "py_lower s = map lower_char a @ sub @ map lower_char b"
    by (simp add: py_lower_def)
  then show ?thesis unfolding py_in_iff by blast
qed

lemma dropWhile_keeps:
  assumes "sub \<noteq> []" and "\<not> P (hd sub)"
  shows "dropWhile P (a @ sub @ b) = dropWhile P a @ sub @ b"
  using assms by (induction a) (auto simp: neq_Nil_conv)

lemma py_in_strip:
  assumes "py_in sub s" and "sub \<noteq> []" and "\<not> is_space (hd sub)" and "\<not> is_space (last sub)"
  shows "py_in sub (py_strip s)"
proof -
  from assms(1) obtain a b where s: "s = a @ sub @ b" by (auto simp: py_in_iff)
  have 1: "dropWhile is_space s = dropWhile is_space a @ sub @ b"
    unfolding s using assms(2,3) by (rule dropWhile_keeps)
  have "rev (dropWhile is_space s) = rev b @ rev sub @ rev (dropWhile is_space a)"
    by (simp add: 1)
  moreover have r: "rev sub \<noteq> []" "\<not> is_space (hd (rev sub))"
    using assms(2,4) by (simp_all add: hd_rev)
  ultimately have "dropWhile is_space (rev (dropWhile is_space s))
      = dropWhile is_space (rev b) @ rev sub @ rev (dropWhile is_space a)"
    using dropWhile_keeps[of "rev sub" is_space "rev b" "rev (dropWhile is_space a)"] r by simp
  then have "py_strip s = dropWhile is_space a @ sub @ rev (dropWhile is_space (rev b))"
    by (simp add: py_strip_def)
  then show ?thesis unfolding py_in_iff by blast
qed

lemma weather_survives: 
  assumes "py_in ''weather'' message"
  shows "py_in ''weather'' (py_strip (py_lower message))"
proof -
  have "\<forall>c\<in>set ''weather''. lower_char c = c" by (simp add: lower_char_def)
  from py_in_lower[OF assms this] have "py_in ''weather'' (py_lower message)" .
  then show ?thesis by (rule py_in_strip) (simp_all add: is_space_def)
qed

section \<open>The dispatcher's order: weather before search\<close>

text \<open>
  Claim C9. A message that contains \<open>weather\<close> and matches no model or identity question
  takes the weather path, whatever the search and system-command switches are and
  whatever else the message contains: the answer is the weather text for the city of
  the message, with the suffix naming the selected model, and the state is unchanged.
\<close>

theorem weather_before_search:
  assumes "py_in ''weather'' message"
    and "\<not> asks_identity (py_strip (py_lower message))"
  shows "call_ai_api env message enable_search enable_system_commands search_results_limit model_id w =
           (Inr (get_weather env w (weather_city (py_strip (py_lower message)))
                 @ using_suffix (name_of (lookup_model (selected_model model_id w)))), w)"
  using weather_survives[OF assms(1)] assms(2)
  by (simp add: call_ai_api_def classify_def dispatch_def weather_answer_def Let_def)

theorem weather_before_search_witness:
  "py_in ''weather'' ''Search the weather in New York''
   \<and> \<not> asks_identity (py_strip (py_lower ''Search the weather in New York''))
   \<and> fst (call_ai_api (scripted_env (\<lambda>n m. http_ok ''Hi'') None True)
            ''Search the weather in New York'' (Some True) None None None (start_world (2/10) None))
       = Inr (''Weather in new,york: Clear Sky'' @ [CHR 0x0A, CHR 0x0A]
              @ ''[Using: Local Conversation Engine]'')"
proof -
  have h1: "py_in ''weather'' ''Search the weather in New York''" by code_simp
  have h2: "\<not> asks_identity (py_strip (py_lower ''Search the weather in New York''))" by code_simp
  have v: "get_weather (scripted_env (\<lambda>n m. http_ok ''Hi'') None True) (start_world (2/10) None)
             (weather_city (py_strip (py_lower ''Search the weather in New York'')))
           @ using_suffix (name_of (lookup_model (selected_model None (start_world (2/10) None))))
         = ''Weather in new,york: Clear Sky'' @ [CHR 0x0A, CHR 0x0A]
              @ ''[Using: Local Conversation Engine]''"
    by code_simp
  show ?thesis
    using h1 h2 v weather_before_search [OF h1 h2, of "scripted_env (\<lambda>n m. http_ok ''Hi'') None True"
        "Some True" None None None "start_world (2/10) None"]
    by simp
qed

section \<open>The error setter of the status cache\<close>

text \<open>
  Claim C5 asks that the error record stored by the error setter carries a non-empty
  message. \<open>set_model_error\<close> stores the text it is given: for the empty text, and every
  model id, clock reading and settings manager, the stored message is empty (the status
  is \<open>error\<close>, not \<open>available\<close>).
\<close>

theorem set_model_error_stores_empty_message:
  "get_model_error (snd (set_model_error model_id [] now sm)) model_id
     = Some \<lparr>error = [], timestamp = now\<rparr>
   \<and> get_model_status (snd (set_model_error model_id [] now sm)) model_id = ''error''"
  by (simp add: set_model_error_def get_model_error_def get_model_status_def Let_def py_lower_def
      split: option.splits)


text \<open>The sibling setter \<open>set_model_status\<close> does default the message: for a status that
  is not \<open>available\<close>, the stored message is never empty.\<close>

lemma set_model_status_defaults_message:
  assumes "py_lower (case status of None \<Rightarrow> ''error'' | Some s \<Rightarrow> if s = [] then ''error'' else s)
             \<noteq> ''available''"
  shows "\<exists>r. get_model_error (set_model_status model_id status err now sm) model_id = Some r
             \<and> error r \<noteq> []"
  using assms
  by (auto simp: set_model_status_def get_model_error_def Let_def split: option.splits)

section \<open>What the dispatcher returns\<close>

lemma quiet_refl: "quiet w w"
  by (simp add: quiet_def)

lemma quiet_started: "quiet w (w\<lparr>started := x\<rparr>)"
  by (simp add: quiet_def)

lemma tidy_if: "tidy w a \<Longrightarrow> tidy w b \<Longrightarrow> tidy w (if c then a else b)"
  by simp

lemma tidy_none: "tidy w (Inr None, w)"
  by (simp add: tidy_def quiet_def)

lemma tidy_some: "s \<noteq> [] \<Longrightarrow> tidy w (Inr (Some s), w)"
  by (simp add: tidy_def quiet_def)

lemma tidy_some_started: "s \<noteq> [] \<Longrightarrow> tidy w (Inr (Some s), w\<lparr>started := x\<rparr>)"
  by (simp add: tidy_def quiet_def)

lemma tidy_started: "s \<noteq> [] \<Longrightarrow> tidy w (started_or_raise env prog s w)"
  by (simp add: tidy_def quiet_def started_or_raise_def start_def)

lemma tidy_case_start:
  "a \<noteq> [] \<Longrightarrow> b \<noteq> [] \<Longrightarrow>
   tidy w (case start env prog w of
             (None, w1) \<Rightarrow> (Inr (Some a), w1)
           | (Some e, w1) \<Rightarrow> (Inr (Some b), w1))"
  by (simp add: tidy_def quiet_def start_def)

lemma by_creativity_nonempty:
  "a \<noteq> [] \<Longrightarrow> b \<noteq> [] \<Longrightarrow> c \<noteq> [] \<Longrightarrow> by_creativity w a b c \<noteq> []"
  by (simp add: by_creativity_def Let_def)

lemma if_nonempty: "a \<noteq> [] \<Longrightarrow> b \<noteq> [] \<Longrightarrow> (if c then a else b) \<noteq> []"
  by simp

lemma execute_tidy: "tidy w (execute_system_command env command w)"
  unfolding execute_system_command_def Let_def
  by (intro tidy_if tidy_none tidy_some tidy_some_started tidy_started tidy_case_start
        by_creativity_nonempty if_nonempty)
     (simp_all add: emoji_folder_def emoji_loud_def emoji_quiet_def emoji_mute_def emoji_camera_def)

lemma suffixed_by_append: "suffixed_by name (s @ using_suffix name)"
  unfolding suffixed_by_def by blast



lemma system_stage_cases:
  obtains (raise) e w1 where "system_stage env system_enabled current_model message_lower w = (Inl e, w1)"
      and "execute_system_command env message_lower w = (Inl e, w1)" and "quiet w w1"
    | (answer) ans w1 where "system_stage env system_enabled current_model message_lower w
          = (Inr (Some ans), w1)"
      and "suffixed_by (name_of (lookup_model current_model)) ans" and "quiet w w1"
    | (general) "system_stage env system_enabled current_model message_lower w = (Inr None, w)"
proof (cases system_enabled)
  case True
  obtain r w1 where ex: "execute_system_command env message_lower w = (r, w1)"
    by (cases "execute_system_command env message_lower w")
  have t: "tidy w (r, w1)" using execute_tidy[of w env message_lower] ex by simp
  then have q: "quiet w w1" by (simp add: tidy_def)
  show ?thesis
  proof (cases r)
    case (Inl e)
    with True ex have "system_stage env system_enabled current_model message_lower w = (Inl e, w1)"
      by (simp add: system_stage_def)
    with Inl ex q show ?thesis using raise by simp
  next
    case (Inr a)
    show ?thesis
    proof (cases a)
      case None
      with Inr t have "w1 = w" by (simp add: tidy_def)
      with None Inr ex True
      have "system_stage env system_enabled current_model message_lower w = (Inr None, w)"
        by (simp add: system_stage_def)
      then show ?thesis using general by simp
    next
      case (Some s)
      with Inr t have "s \<noteq> []" by (simp add: tidy_def)
      with Some Inr ex True
      have "system_stage env system_enabled current_model message_lower w
            = (Inr (Some (s @ using_suffix (name_of (lookup_model current_model)))), w1)"
        by (simp add: system_stage_def)
      then show ?thesis using answer suffixed_by_append q by blast
    qed
  qed
next
  case False
  show ?thesis
  proof (cases "any_in [''open '', ''volume'', ''screenshot'', ''notepad'', ''calculator'',
                      ''browser'', ''chrome'', ''explorer'', ''file manager''] message_lower")
    case True
    with False
    have "\<exists>s. system_stage env system_enabled current_model message_lower w
              = (Inr (Some (s @ using_suffix (name_of (lookup_model current_model)))), w)"
      by (simp only: system_stage_def Let_def if_True if_False) blast
    then show ?thesis using answer suffixed_by_append quiet_refl by metis
  next
    case nk: False
    with False show ?thesis
      by (intro general) (simp only: system_stage_def Let_def if_True if_False)
  qed
qed

lemma search_stage_suffixed_by:
  "search_stage env w search_enabled search_limit current_model message_lower = Some a
   \<Longrightarrow> suffixed_by (name_of (lookup_model current_model)) a"
  by (auto simp only: search_stage_def Let_def option.inject option.distinct suffixed_by_append
      split: if_splits prod.splits)

lemma dispatch_cases:
  obtains (raise) e w1 where "dispatch env ml se sy lmt cm w = (Inl e, w1)"
      and "execute_system_command env ml w = (Inl e, w1)" and "quiet w w1"
    | (answer) a w1 where "dispatch env ml se sy lmt cm w = (Inr (Some a), w1)"
      and "suffixed_by (name_of (lookup_model cm)) a" and "quiet w w1"
    | (general) "dispatch env ml se sy lmt cm w = (Inr None, w)"
proof (cases "asks_identity ml")
  case True
  then have "dispatch env ml se sy lmt cm w = (Inr (Some (identity_answer w cm)), w)"
    by (simp add: dispatch_def)
  moreover have "suffixed_by (name_of (lookup_model cm)) (identity_answer w cm)"
    unfolding identity_answer_def Let_def suffixed_by_def by blast
  ultimately show ?thesis using answer quiet_refl by blast
next
  case ni: False
  show ?thesis
  proof (cases "py_in ''weather'' ml")
    case True
    with ni have "dispatch env ml se sy lmt cm w = (Inr (Some (weather_answer env w cm ml)), w)"
      by (simp add: dispatch_def)
    moreover have "suffixed_by (name_of (lookup_model cm)) (weather_answer env w cm ml)"
      unfolding weather_answer_def suffixed_by_def by blast
    ultimately show ?thesis using answer quiet_refl by blast
  next
    case nw: False
    show ?thesis
    proof (cases "search_stage env w se lmt cm ml")
      case (Some a)
      with ni nw have "dispatch env ml se sy lmt cm w = (Inr (Some a), w)"
        by (simp add: dispatch_def)
      with search_stage_suffixed_by[OF Some] show ?thesis using answer quiet_refl by blast
    next
      case None
      with ni nw have d: "dispatch env ml se sy lmt cm w = system_stage env sy cm ml w"
        by (simp add: dispatch_def)
      show ?thesis
      proof (cases rule: system_stage_cases[of env sy cm ml w])
        case (raise e w1)
        with d show ?thesis using that(1) by simp
      next
        case (answer ans w1)
        with d show ?thesis using that(2) by simp
      next
        case general
        with d show ?thesis using that(3) by simp
      qed
    qed
  qed
qed

lemma classify_dispatch:
  "classify env message enable_search enable_system_commands search_results_limit model_id w
   = dispatch env (py_strip (py_lower message))
       (case enable_search of Some b \<Rightarrow> b | None \<Rightarrow> adv_enable_search (advanced_settings w))
       (case enable_system_commands of Some b \<Rightarrow> b
        | None \<Rightarrow> adv_enable_system_commands (advanced_settings w))
       (case search_results_limit of
          Some n \<Rightarrow> if n \<noteq> 0 then n else adv_search_results_limit (advanced_settings w)
        | None \<Rightarrow> adv_search_results_limit (advanced_settings w))
       (selected_model model_id w) w"
  by (simp add: classify_def Let_def)

lemma general_message_call:
  assumes "general_message env message enable_search enable_system_commands search_results_limit model_id w"
  shows "call_ai_api env message enable_search enable_system_commands search_results_limit model_id w
         = (Inr (fst (model_stage env message (selected_model model_id w) w)),
            snd (model_stage env message (selected_model model_id w) w))"
proof -
  let ?c = "classify env message enable_search enable_system_commands search_results_limit model_id w"
  have f: "fst ?c = Inr None" using assms by (simp add: general_message_def)
  have "?c = (Inr None, w)"
    unfolding classify_dispatch
    by (rule dispatch_cases) (use f in \<open>auto simp: classify_dispatch\<close>)
  then show ?thesis by (simp add: call_ai_api_def split: prod.splits)
qed

section \<open>Frame facts\<close>

lemma generate_response_frame:
  "posts (snd (generate_response env message w)) = posts w"
  "reloads (snd (generate_response env message w)) = reloads w"
  "settings_manager (snd (generate_response env message w)) = settings_manager w"
  by (simp_all add: generate_response_def save_to_disk_def Let_def split: prod.splits)

lemma record_error_frame:
  "posts (record_error m e w) = posts w"
  "reloads (record_error m e w) = reloads w"
  "conversation_engine (record_error m e w) = conversation_engine w"
  "draws (record_error m e w) = draws w"
  "config (record_error m e w) = config w"
  by (simp_all add: record_error_def set_model_error_def config_def Let_def split: option.splits)

lemma config_posts: "config (w\<lparr>posts := p\<rparr>) = config w"
  by (simp add: config_def)

lemma reload_frame:
  "posts (snd (reload_openrouter_token_from_env env w)) = posts w"
  "reloads (snd (reload_openrouter_token_from_env env w)) = Suc (reloads w)"
  by (simp_all add: reload_openrouter_token_from_env_def Let_def split: option.splits)

lemma try_primary_fail:
  assumes "query_model (http_post env (length (posts w)) m) = Inl e"
  shows "try_primary env m name w = (Inl e, w\<lparr>posts := posts w @ [m]\<rparr>)"
  using assms by (simp add: try_primary_def remote_call_def)

lemma try_primary_reloads: "reloads (snd (try_primary env m name w)) = reloads w"
  by (simp add: try_primary_def remote_call_def clear_model_error_def Let_def
      split: sum.splits option.splits prod.splits)


lemma rate_limit_text:
  "\<not> auth_error (py_lower ''HF rate limit exceeded'')"
  "transient (py_lower ''HF rate limit exceeded'')"
  "first_line ''HF rate limit exceeded'' = ''HF rate limit exceeded''"
  "\<not> py_in ''paused'' (py_lower ''HF rate limit exceeded'')"
  "\<not> py_in ''loading'' (py_lower ''HF rate limit exceeded'')"
  by code_simp+


section \<open>The primary loop under rate limiting\<close>

lemma primary_loop_rate_limited:
  assumes "\<forall>k. query_model (http_post env k m) = rate_limit_failure"
  shows "\<exists>w'. primary_loop env m name n did lerr w
               = (Inr (if n = 0 then lerr else Some ''HF rate limit exceeded''), w')
             \<and> posts w' = posts w @ replicate n m
             \<and> reloads w' = reloads w
             \<and> conversation_engine w' = conversation_engine w
             \<and> draws w' = draws w
             \<and> config w' = config w"
proof (induction n arbitrary: did lerr w)
  case 0
  then show ?case by simp
next
  case (Suc n)
  let ?msg = "''HF rate limit exceeded''"
  let ?w1 = "w\<lparr>posts := posts w @ [m]\<rparr>"
  let ?w2 = "record_error m ?msg ?w1"
  have q: "query_model (http_post env (length (posts w)) m) = Inl (HFRequestError 429 ?msg)"
    using assms by (simp add: rate_limit_failure_def)
  have step: "primary_loop env m name (Suc n) did lerr w
              = primary_loop env m name n did (Some ?msg) ?w2"
    by (simp add: try_primary_fail[OF q] rate_limit_text Let_def)
  from Suc.IH[of did "Some ?msg" ?w2] obtain w' where
    w': "primary_loop env m name n did (Some ?msg) ?w2
          = (Inr (if n = 0 then Some ?msg else Some ?msg), w')"
      "posts w' = posts ?w2 @ replicate n m" "reloads w' = reloads ?w2"
      "conversation_engine w' = conversation_engine ?w2" "draws w' = draws ?w2"
      "config w' = config ?w2"
    by auto
  have "posts w' = posts w @ replicate (Suc n) m"
    using w'(2) by (simp add: record_error_frame replicate_append_same)
  moreover have "config w' = config w"
    using w'(6) by (simp add: record_error_frame config_posts)
  ultimately show ?case
    using step w' by (simp add: record_error_frame)
qed

lemma sm_get_settings: "settings a = settings b \<Longrightarrow> sm_get a = sm_get b"
  by (simp add: sm_get_def fun_eq_iff)

lemma recovery_settings_config:
  assumes "config w' = config w"
  shows "recovery_settings w' = recovery_settings w"
proof (cases "settings_manager w")
  case None
  with assms have "settings_manager w' = None" by (simp add: config_def)
  with None show ?thesis by (simp add: recovery_settings_def)
next
  case (Some a)
  with assms obtain b where b: "settings_manager w' = Some b" "settings b = settings a"
    by (auto simp: config_def)
  from sm_get_settings[OF b(2)] show ?thesis
    using Some b(1) by (simp add: recovery_settings_def Let_def split: option.splits)
qed

lemma local_fallback_eq:
  "local_fallback env message (Some ''HF rate limit exceeded'') w =
     (fst (generate_response env
             (''[SYSTEM: OpenRouter model error: HF rate limit exceeded] '' @ message) w)
        @ [CHR 0x0A, CHR 0x0A] @ ''[Using: Local Conversation Engine (Fallback)]'',
      snd (generate_response env
             (''[SYSTEM: OpenRouter model error: HF rate limit exceeded] '' @ message) w))"
  by (simp add: local_fallback_def rate_limit_text Let_def split: prod.splits)

text \<open>
  Claim C3. With \<open>retry_attempts\<close> configured to 3, automatic fallback disabled and a
  primary remote model whose every call fails with the rate-limit error, a general
  message makes the router send exactly three requests, all to the primary model, reload
  no credentials, and return the answer of the local responder to the synthetic prompt
  that carries the error, suffixed \<open>[Using: Local Conversation Engine (Fallback)]\<close>.
\<close>

theorem rate_limited_primary_three_attempts:
  assumes "general_message env message enable_search enable_system_commands search_results_limit
             model_id w"
    and "map_of (lookup_model (selected_model model_id w)) ''type'' = Some ''openrouter''"
    and "settings_manager w = Some sm"
    and "sm_get sm ''retry_attempts'' (PInt 2) = PInt 3"
    and "\<not> to_bool (sm_get sm ''auto_fallback'' (PBool True)) True"
    and "\<forall>k. query_model (http_post env k (selected_model model_id w)) = rate_limit_failure"
  shows "posts (snd (call_ai_api env message enable_search enable_system_commands
                       search_results_limit model_id w))
           = posts w @ replicate 3 (selected_model model_id w)
         \<and> reloads (snd (call_ai_api env message enable_search enable_system_commands
                       search_results_limit model_id w)) = reloads w
         \<and> (\<exists>w'. conversation_engine w' = conversation_engine w \<and> draws w' = draws w
               \<and> fst (call_ai_api env message enable_search enable_system_commands
                         search_results_limit model_id w)
                 = Inr (fst (generate_response env
                           (''[SYSTEM: OpenRouter model error: HF rate limit exceeded] '' @ message) w')
                        @ [CHR 0x0A, CHR 0x0A] @ ''[Using: Local Conversation Engine (Fallback)]''))"
proof -
  let ?m = "selected_model model_id w"
  let ?name = "name_of (lookup_model ?m)"
  let ?prompt = "''[SYSTEM: OpenRouter model error: HF rate limit exceeded] '' @ message"
  have n: "retry_attempts w = 3"
    using assms(3,4) by (simp add: retry_attempts_def)
  from primary_loop_rate_limited[OF assms(6), of ?name 3 False None w] obtain w' where
    w': "primary_loop env ?m ?name 3 False None w = (Inr (Some ''HF rate limit exceeded''), w')"
      "posts w' = posts w @ replicate 3 ?m" "reloads w' = reloads w"
      "conversation_engine w' = conversation_engine w" "draws w' = draws w"
      "config w' = config w"
    by auto
  have "rs_auto_fb (recovery_settings w) = False"
    using assms(3,5) by (simp add: recovery_settings_def Let_def split: option.splits)
  then have "rs_auto_fb (recovery_settings w') = False"
    using recovery_settings_config[OF w'(6)] by simp
  then have alt: "alternates env ?m (Some ''HF rate limit exceeded'') w' = (None, w')"
    by (simp add: alternates_def Let_def)
  have "model_stage env message ?m w = local_fallback env message (Some ''HF rate limit exceeded'') w'"
    using assms(2) n w'(1) alt by (simp add: model_stage_def Let_def)
  then have call: "call_ai_api env message enable_search enable_system_commands search_results_limit
                     model_id w
                   = (Inr (fst (generate_response env ?prompt w')
                           @ [CHR 0x0A, CHR 0x0A] @ ''[Using: Local Conversation Engine (Fallback)]''),
                      snd (generate_response env ?prompt w'))"
    using general_message_call[OF assms(1)] by (simp add: local_fallback_eq)
  have "posts (snd (generate_response env ?prompt w')) = posts w @ replicate 3 ?m"
    and "reloads (snd (generate_response env ?prompt w')) = reloads w"
    using w'(2,3) by (simp_all add: generate_response_frame)
  then show ?thesis
    using call w'(4,5) by (simp only: fst_conv snd_conv) blast
qed

theorem rate_limited_primary_three_attempts_witness:
  "general_message (scripted_env (\<lambda>n m. http_error 429 ''Too Many Requests'') None True)
     ''tell me a joke'' None None None (Some ''openai/gpt-oss-20b:free'')
     (start_world (2/10)
        (Some (fresh_settings_manager
           \<lparr>settings := default_settings(''retry_attempts'' \<mapsto> PInt 3,
                                         ''auto_fallback'' \<mapsto> PBool False)\<rparr>)))
   \<and> query_model (http_error 429 ''Too Many Requests'') = rate_limit_failure
   \<and> posts (snd (call_ai_api
                  (scripted_env (\<lambda>n m. http_error 429 ''Too Many Requests'') None True)
                  ''tell me a joke'' None None None (Some ''openai/gpt-oss-20b:free'')
                  (start_world (2/10)
                     (Some (fresh_settings_manager
                        \<lparr>settings := default_settings(''retry_attempts'' \<mapsto> PInt 3,
                                                      ''auto_fallback'' \<mapsto> PBool False)\<rparr>)))))
       = [''openai/gpt-oss-20b:free'', ''openai/gpt-oss-20b:free'', ''openai/gpt-oss-20b:free'']"
proof -
  let ?env = "scripted_env (\<lambda>n m. http_error 429 ''Too Many Requests'') None True"
  let ?sm = "fresh_settings_manager
           \<lparr>settings := default_settings(''retry_attempts'' \<mapsto> PInt 3,
                                         ''auto_fallback'' \<mapsto> PBool False)\<rparr>"
  let ?w = "start_world (2/10) (Some ?sm)"
  let ?mid = "Some ''openai/gpt-oss-20b:free''"
  have h1: "general_message ?env ''tell me a joke'' None None None ?mid ?w" by code_simp
  have h2: "map_of (lookup_model (selected_model ?mid ?w)) ''type'' = Some ''openrouter''"
    by code_simp
  have h3: "settings_manager ?w = Some ?sm" by (simp add: start_world_def)
  have h4: "sm_get ?sm ''retry_attempts'' (PInt 2) = PInt 3" by (simp add: sm_get_def)
  have h5: "\<not> to_bool (sm_get ?sm ''auto_fallback'' (PBool True)) True"
    by (simp add: sm_get_def to_bool_def)
  have q: "query_model (http_error 429 ''Too Many Requests'') = rate_limit_failure" by code_simp
  have h6: "\<forall>k. query_model (http_post ?env k (selected_model ?mid ?w)) = rate_limit_failure"
    using q by (simp add: scripted_env_def)
  have p: "posts ?w = []" by (simp add: start_world_def)
  have m: "selected_model ?mid ?w = ''openai/gpt-oss-20b:free''" by (simp add: selected_model_def)
  have r: "replicate 3 ''openai/gpt-oss-20b:free''
           = [''openai/gpt-oss-20b:free'', ''openai/gpt-oss-20b:free'', ''openai/gpt-oss-20b:free'']"
    by (simp add: numeral_3_eq_3)
  from rate_limited_primary_three_attempts [OF h1 h2 h3 h4 h5 h6]
  have "posts (snd (call_ai_api ?env ''tell me a joke'' None None None ?mid ?w))
        = posts ?w @ replicate 3 (selected_model ?mid ?w)"
    by blast
  then show ?thesis using h1 q unfolding p m r by simp
qed

section \<open>Auth recovery\<close>



lemma first_walk_skips:
  "\<exists>t. first_walk cap tried candidates w = (Inr t, w)"
  by (induction candidates arbitrary: tried) (auto simp: hf_api_query_model_def)

lemma switch_to_frame:
  "reloads (switch_to alt_id w) = reloads w"
  "posts (switch_to alt_id w) = posts w"
  by (simp_all add: switch_to_def)

lemma second_walk_reloads:
  "reloads (snd (second_walk env w0 m cap tried ds w)) = reloads w"
  by (induction ds arbitrary: w)
     (auto simp: remote_call_def switch_to_frame split: sum.splits)

lemma alternates_cases:
  obtains (stay) "alternates env m lerr w = (None, w)"
  | (walk) cap tried ds r w2 where "second_walk env w m cap tried ds w = (r, w2)"
      and "alternates env m lerr w = ((case r of Inl e \<Rightarrow> None | Inr a \<Rightarrow> a), w2)"
proof -
  let ?rs = "recovery_settings w"
  obtain t where t: "first_walk (rs_cap ?rs) 0 (alt_models w m (rs_priority_raw ?rs)) w = (Inr t, w)"
    using first_walk_skips by blast
  let ?go = "rs_auto_fb ?rs \<and> rs_cap ?rs > 0
      \<and> (py_in ''paused'' (py_lower (case lerr of None \<Rightarrow> [] | Some s \<Rightarrow> s))
         \<or> py_in ''loading'' (py_lower (case lerr of None \<Rightarrow> [] | Some s \<Rightarrow> s))
         \<or> rs_ignore_pings ?rs)
      \<and> t < rs_cap ?rs"
  show ?thesis
  proof (cases "?go \<and> (\<exists>s. rs_priority_raw ?rs = PStr s)")
    case False
    then have "alternates env m lerr w = (None, w)"
      unfolding alternates_def Let_def t
      by (cases "rs_priority_raw ?rs") auto
    then show ?thesis by (rule stay)
  next
    case True
    then obtain s where s: "rs_priority_raw ?rs = PStr s" by blast
    obtain r w2 where sw: "second_walk env w m (rs_cap ?rs) t (direct_list env w m (comma_items s)) w
                           = (r, w2)"
      by (cases "second_walk env w m (rs_cap ?rs) t (direct_list env w m (comma_items s)) w")
    have "alternates env m lerr w = ((case r of Inl e \<Rightarrow> None | Inr a \<Rightarrow> a), w2)"
      using True s sw unfolding alternates_def Let_def t
      by (cases r) auto
    with sw show ?thesis by (rule walk)
  qed
qed

lemma alternates_reloads: "reloads (snd (alternates env m lerr w)) = reloads w"
proof (cases rule: alternates_cases[of env m lerr w])
  case stay
  then show ?thesis by simp
next
  case (walk cap tried ds r w2)
  with second_walk_reloads[of env w m cap tried ds w] show ?thesis by simp
qed

lemma local_fallback_frame:
  "reloads (snd (local_fallback env message lerr w)) = reloads w"
  "posts (snd (local_fallback env message lerr w)) = posts w"
  by (simp_all add: local_fallback_def generate_response_frame Let_def case_prod_beta)




text \<open>More generally, one run of the model stage reloads the token at most once, as long
  as no error text of the primary model reads both as an authentication error and as a
  transient one.\<close>

lemma try_primary_error_cases:
  assumes "try_primary env m name w = (Inl e, w1)"
  shows "query_model (http_post env (length (posts w)) m) = Inl e
         \<or> e = Exception ''Empty response from OpenRouter model''
         \<or> e = KeyError ''model_errors''"
  using assms
  by (auto simp: try_primary_def remote_call_def clear_model_error_def Let_def
      split: sum.splits option.splits if_splits)

lemma own_errors_not_auth:
  "\<not> auth_error (py_lower (exn_str (Exception ''Empty response from OpenRouter model'')))"
  "\<not> auth_error (py_lower (exn_str (KeyError ''model_errors'')))"
  by code_simp+

lemma try_primary_posts:
  "posts (snd (try_primary env m name w)) = posts w @ [m]"
  by (simp add: try_primary_def remote_call_def clear_model_error_def Let_def
      split: sum.splits option.splits prod.splits)

lemma primary_loop_reload_bound:
  assumes "\<forall>k e. query_model (http_post env k m) = Inl e \<longrightarrow> \<not> mixed_signal (exn_str e)"
  shows "reloads (snd (primary_loop env m name n did lerr w))
           \<le> reloads w + (if did then 0 else 1)"
proof (induction n arbitrary: did lerr w)
  case 0
  then show ?case by simp
next
  case (Suc n)
  obtain r w1 where t: "try_primary env m name w = (r, w1)"
    by (cases "try_primary env m name w")
  have w1: "reloads w1 = reloads w" using try_primary_reloads[of env m name w] t by simp
  show ?case
  proof (cases r)
    case (Inr answer)
    with t w1 show ?thesis by simp
  next
    case (Inl e)
    let ?err = "exn_str e"
    let ?w2 = "record_error m ?err w1"
    have w2: "reloads ?w2 = reloads w" using w1 by (simp add: record_error_frame)
    have nm: "\<not> (auth_error (py_lower ?err) \<and> transient (py_lower ?err))"
      using try_primary_error_cases[of env m name w e w1] t Inl assms own_errors_not_auth
      by (auto simp: mixed_signal_def)
    obtain b w3 where rl: "reload_openrouter_token_from_env env ?w2 = (b, w3)"
      by (cases "reload_openrouter_token_from_env env ?w2")
    have w3: "reloads w3 = Suc (reloads w)" using reload_frame(2)[of env ?w2] rl w2 by simp
    have no_reload: "reloads (snd (primary_loop env m name (Suc n) did lerr w))
                       \<le> reloads w + (if did then 0 else 1)"
      if c: "\<not> auth_error (py_lower ?err) \<or> did"
    proof (cases "transient (py_lower ?err)")
      case True
      have "primary_loop env m name (Suc n) did lerr w
            = primary_loop env m name n did (Some ?err) ?w2"
        using c t Inl True by (auto simp: Let_def)
      with Suc.IH[of did "Some ?err" ?w2] w2 show ?thesis by simp
    next
      case nt: False
      have "primary_loop env m name (Suc n) did lerr w = (Inr (Some ?err), ?w2)"
        using c t Inl nt by (auto simp: Let_def)
      with w2 show ?thesis by simp
    qed
    show ?thesis
    proof (cases "auth_error (py_lower ?err) \<and> \<not> did")
      case True
      with nm have nt: "\<not> transient (py_lower ?err)" by simp
      show ?thesis
      proof (cases b)
        case b: True
        have "primary_loop env m name (Suc n) did lerr w
              = primary_loop env m name n True (Some ?err) w3"
          using t Inl True rl b by (simp add: Let_def)
        with Suc.IH[of True "Some ?err" w3] w3 True show ?thesis by simp
      next
        case b: False
        have "primary_loop env m name (Suc n) did lerr w = (Inr (Some ?err), w3)"
          using t Inl True rl b nt by (simp add: Let_def)
        with w3 True show ?thesis by simp
      qed
    next
      case False
      then have "\<not> auth_error (py_lower ?err) \<or> did" by simp
      from no_reload[OF this] show ?thesis .
    qed
  qed
qed

lemma model_stage_reload_at_most_once:
  assumes "\<forall>k e. query_model (http_post env k m) = Inl e \<longrightarrow> \<not> mixed_signal (exn_str e)"
  shows "reloads (snd (model_stage env message m w)) \<le> Suc (reloads w)"
proof (cases "map_of (lookup_model m) ''type'' = Some ''openrouter''")
  case True
  let ?name = "name_of (lookup_model m)"
  obtain r w1 where p: "primary_loop env m ?name (retry_attempts w) False None w = (r, w1)"
    by (cases "primary_loop env m ?name (retry_attempts w) False None w")
  have w1: "reloads w1 \<le> Suc (reloads w)"
    using primary_loop_reload_bound[OF assms, of ?name "retry_attempts w" False None w] p by simp
  show ?thesis
  proof (cases r)
    case (Inl answer)
    with True p w1 show ?thesis by (simp add: model_stage_def Let_def)
  next
    case (Inr lerr)
    obtain a w2 where alt: "alternates env m lerr w1 = (a, w2)"
      by (cases "alternates env m lerr w1")
    have w2: "reloads w2 \<le> Suc (reloads w)"
      using alternates_reloads[of env m lerr w1] alt w1 by simp
    show ?thesis
      using True p Inr alt w2 local_fallback_frame(1)[of env message lerr w2]
      by (cases a) (simp_all add: model_stage_def Let_def)
  qed
next
  case False
  obtain response w1 where g: "generate_response env message w = (response, w1)"
    by (cases "generate_response env message w")
  have f: "reloads w1 = reloads w" using generate_response_frame(2)[of env message w] g by simp
  show ?thesis
  proof (cases "settings_manager w1")
    case None
    with False g f show ?thesis by (simp add: model_stage_def Let_def)
  next
    case (Some sm)
    obtain x sm1 where "clear_model_error m sm = (x, sm1)" by (cases "clear_model_error m sm")
    with False g f Some show ?thesis by (cases x) (simp_all add: model_stage_def Let_def)
  qed
qed

text \<open>An error text that reads both ways, with no token in the environment, makes every
  attempt try the reload again.\<close>

lemma mixed_signal_reloads_twice:
  "reloads (snd (call_ai_api
       (scripted_env (\<lambda>n m. http_error 400 ''authentication rate limit'') None True)
       ''tell me a joke'' None None None (Some ''openai/gpt-oss-20b:free'')
       (start_world (2/10) None))) = 2"
  by code_simp

section \<open>The alternates walk\<close>

text \<open>The alternates stage sends at most one request, and in the second walk a failing
  candidate, whatever its status code, ends the walk.\<close>

lemma second_walk_posts:
  "length (posts (snd (second_walk env w0 m cap tried ds w))) \<le> Suc (length (posts w))"
  by (induction ds arbitrary: w)
     (auto simp: remote_call_def switch_to_frame split: sum.splits)

lemma alternates_at_most_one_request:
  "length (posts (snd (alternates env m lerr w))) \<le> Suc (length (posts w))"
proof (cases rule: alternates_cases[of env m lerr w])
  case stay
  then show ?thesis by simp
next
  case (walk cap tried ds r w2)
  with second_walk_posts[of env w m cap tried ds w] show ?thesis by simp
qed

lemma second_walk_stops_at_failure:
  assumes "alt_id \<noteq> m" and "tried < cap"
    and "query_model (http_post env (length (posts w)) alt_id) = Inl e"
  shows "second_walk env w0 m cap tried (alt_id # rest) w
         = (Inl (NameError ''OpenRouterRequestError''), w\<lparr>posts := posts w @ [alt_id]\<rparr>)"
  using assms by (simp add: remote_call_def)

text \<open>With the catalog of a fresh settings manager, whose remote models carry no
  provider, there is no alternate candidate at all. Without a settings manager (cap 3,
  two alternates) the first walk uses up two attempts without a request, and the
  second walk ends at the 404 of its first candidate: the other alternate, which would
  answer, is not asked.\<close>

lemma default_ui_catalog_has_no_alternates:
  "alt_models (start_world level (Some fresh_settings_manager)) m (PStr []) = []"
  by (simp add: alt_models_def get_ui_available_models_def start_world_def
      fresh_settings_manager_def default_ui_models_def is_openrouter_def comma_items_def)

lemma cli_second_alternate_never_attempted:
  "posts (snd (call_ai_api (scripted_env paused_primary_script None True) ''tell me a joke''
          None None None (Some ''openai/gpt-oss-20b:free'') (start_world (2/10) None)))
     = [''openai/gpt-oss-20b:free'', ''openai/gpt-oss-20b:free'', ''deepseek/deepseek-r1-0528:free'']
   \<and> fst (call_ai_api (scripted_env paused_primary_script None True) ''tell me a joke''
          None None None (Some ''openai/gpt-oss-20b:free'') (start_world (2/10) None))
     = Inr (''I see. What would you like to know about that?'' @ [CHR 0x0A, CHR 0x0A]
            @ ''[Using: Local Conversation Engine (Fallback)]'')"
  by code_simp

text \<open>
  Claim C2 asks that, with a cap of 2 and three alternate candidates of which the first
  answers 404, the two remaining candidates are attempted. In that scenario (the primary
  endpoint paused, the other two alternates ready to answer) the run sends the two
  primary requests and no request to any alternate, and returns the local fallback.
\<close>

theorem alternates_never_attempted:
  "fst (call_ai_api (scripted_env paused_primary_script None True) ''tell me a joke''
          None None None (Some ''openai/gpt-oss-20b:free'')
          (start_world (2/10)
             (Some (fresh_settings_manager
                \<lparr>settings := default_settings(''alt_attempt_cap'' \<mapsto> PInt 2),
                 ui_models := Some four_remote_models\<rparr>))))
     = Inr (''I see. What would you like to know about that?'' @ [CHR 0x0A, CHR 0x0A]
            @ ''[Using: Local Conversation Engine (Fallback)]'')
   \<and> posts (snd (call_ai_api (scripted_env paused_primary_script None True) ''tell me a joke''
          None None None (Some ''openai/gpt-oss-20b:free'')
          (start_world (2/10)
             (Some (fresh_settings_manager
                \<lparr>settings := default_settings(''alt_attempt_cap'' \<mapsto> PInt 2),
                 ui_models := Some four_remote_models\<rparr>)))))
     = [''openai/gpt-oss-20b:free'', ''openai/gpt-oss-20b:free'']"
  by code_simp

section \<open>Every answer is suffixed\<close>










section \<open>An unknown model id\<close>

lemma unknown_model_info:
  assumes "m \<notin> fst ` set get_available_models"
  shows "map_of (lookup_model m) ''type'' = Some ''local''"
    and "name_of (lookup_model m) = ''Local Conversation Engine''"
proof -
  have "map_of get_available_models m = None" using assms by (simp add: map_of_eq_None_iff)
  then have l: "lookup_model m = dict_get get_available_models ''local_engine'' []"
    by (simp add: lookup_model_def dict_get_def)
  have "map_of (dict_get get_available_models ''local_engine'' []) ''type'' = Some ''local''"
    by code_simp
  moreover have "name_of (dict_get get_available_models ''local_engine'' [])
                 = ''Local Conversation Engine''"
    by code_simp
  ultimately show "map_of (lookup_model m) ''type'' = Some ''local''"
    and "name_of (lookup_model m) = ''Local Conversation Engine''"
    using l by simp_all
qed

lemma unknown_model_stage:
  assumes "m \<notin> fst ` set get_available_models"
  shows "posts (snd (model_stage env message m w)) = posts w
         \<and> suffixed_by ''Local Conversation Engine'' (fst (model_stage env message m w))
         \<and> ((\<forall>sm. settings_manager w = Some sm \<longrightarrow> stored_errors sm \<noteq> None) \<longrightarrow>
              fst (model_stage env message m w)
                = fst (generate_response env message w) @ using_suffix ''Local Conversation Engine''
              \<and> conversation_engine (snd (model_stage env message m w))
                = conversation_engine (snd (generate_response env message w)))"
proof -
  obtain response w1 where g: "generate_response env message w = (response, w1)"
    by (cases "generate_response env message w")
  have f: "posts w1 = posts w" "settings_manager w1 = settings_manager w"
    using generate_response_frame[of env message w] g by simp_all
  have ty: "map_of (lookup_model m) ''type'' \<noteq> Some ''openrouter''"
    using unknown_model_info(1)[OF assms] by simp
  note nm = unknown_model_info(2)[OF assms]
  have tr: "suffixed_by ''Local Conversation Engine'' (trouble_connecting ''Local Conversation Engine'')"
    unfolding trouble_connecting_def by (rule suffixed_by_append)
  show ?thesis
  proof (cases "settings_manager w")
    case None
    with ty g f nm
    have "model_stage env message m w = (response @ using_suffix ''Local Conversation Engine'', w1)"
      by (simp add: model_stage_def Let_def)
    then show ?thesis using f g by (simp add: suffixed_by_append)
  next
    case (Some sm)
    obtain x sm1 where c: "clear_model_error m sm = (x, sm1)" by (cases "clear_model_error m sm")
    show ?thesis
    proof (cases x)
      case None
      with ty g f nm Some c
      have "model_stage env message m w
            = (response @ using_suffix ''Local Conversation Engine'',
               w1\<lparr>settings_manager := Some sm1\<rparr>)"
        by (simp add: model_stage_def Let_def)
      then show ?thesis using f g by (simp add: suffixed_by_append)
    next
      case (Some e)
      with ty g f nm \<open>settings_manager w = Some sm\<close> c
      have ms: "model_stage env message m w
            = (trouble_connecting ''Local Conversation Engine'',
               w1\<lparr>settings_manager := Some sm1\<rparr>)"
        by (simp add: model_stage_def Let_def)
      have "stored_errors sm = None"
      proof (rule ccontr)
        assume "stored_errors sm \<noteq> None"
        then obtain st where "stored_errors sm = Some st" by auto
        then have "fst (clear_model_error m sm) = None"
          by (simp add: clear_model_error_def Let_def)
        with c Some show False by simp
      qed
      then show ?thesis using ms f tr \<open>settings_manager w = Some sm\<close> by simp
    qed
  qed
qed

text \<open>
  Claim C10 says that with a model id that is no key of the catalog \<open>call_ai_api\<close> answers
  through the local responder. For a message that the dispatcher answers itself this is
  not so: the weather request below is answered by the weather collaborator, the local
  responder is not run and its memory stays empty.
\<close>

theorem unknown_model_weather_not_local:
  "map_of get_available_models ''no-such-model'' = None
   \<and> fst (call_ai_api (scripted_env (\<lambda>n m. http_ok ''Hi'') None True) ''weather''
            None None None (Some ''no-such-model'') (start_world (2/10) None))
       = Inr (''Weather in Beavercreek,Ohio: Clear Sky'' @ using_suffix ''Local Conversation Engine'')
   \<and> fst (call_ai_api (scripted_env (\<lambda>n m. http_ok ''Hi'') None True) ''weather''
            None None None (Some ''no-such-model'') (start_world (2/10) None))
       \<noteq> Inr (fst (generate_response (scripted_env (\<lambda>n m. http_ok ''Hi'') None True) ''weather''
                     (start_world (2/10) None))
              @ using_suffix ''Local Conversation Engine'')
   \<and> context_memory (conversation_engine
         (snd (call_ai_api (scripted_env (\<lambda>n m. http_ok ''Hi'') None True) ''weather''
                 None None None (Some ''no-such-model'') (start_world (2/10) None)))) = []"
  by code_simp

text \<open>
  Claim C10 as amended. With a model id that is no key of the catalog, \<open>call_ai_api\<close>
  sends no request to any model, and every text it returns ends with the suffix
  \<open>[Using: Local Conversation Engine]\<close> of the substituted descriptor. For a general
  message, when no settings manager is set or its stored error dictionary exists, the
  text is the local responder's answer to the message with that suffix, and the engine
  is as the local responder left it.
\<close>

theorem unknown_model_answers_locally:
  assumes "selected_model model_id w \<notin> fst ` set get_available_models"
  shows "posts (snd (call_ai_api env message enable_search enable_system_commands
                       search_results_limit model_id w)) = posts w
         \<and> (\<forall>answer. fst (call_ai_api env message enable_search enable_system_commands
                             search_results_limit model_id w) = Inr answer
                \<longrightarrow> (\<exists>s. answer = s @ using_suffix ''Local Conversation Engine''))
         \<and> (general_message env message enable_search enable_system_commands search_results_limit
               model_id w
             \<and> (\<forall>sm. settings_manager w = Some sm \<longrightarrow> stored_errors sm \<noteq> None)
             \<longrightarrow> fst (call_ai_api env message enable_search enable_system_commands
                        search_results_limit model_id w)
                   = Inr (fst (generate_response env message w)
                          @ using_suffix ''Local Conversation Engine'')
                 \<and> conversation_engine (snd (call_ai_api env message enable_search
                        enable_system_commands search_results_limit model_id w))
                   = conversation_engine (snd (generate_response env message w)))"
proof -
  let ?se = "case enable_search of Some b \<Rightarrow> b | None \<Rightarrow> adv_enable_search (advanced_settings w)"
  let ?sy = "case enable_system_commands of Some b \<Rightarrow> b
             | None \<Rightarrow> adv_enable_system_commands (advanced_settings w)"
  let ?lmt = "case search_results_limit of
                Some n \<Rightarrow> if n \<noteq> 0 then n else adv_search_results_limit (advanced_settings w)
              | None \<Rightarrow> adv_search_results_limit (advanced_settings w)"
  let ?m = "selected_model model_id w"
  let ?ml = "py_strip (py_lower message)"
  let ?call = "call_ai_api env message enable_search enable_system_commands search_results_limit
                 model_id w"
  have c: "classify env message enable_search enable_system_commands search_results_limit model_id w
           = dispatch env ?ml ?se ?sy ?lmt ?m w"
    by (rule classify_dispatch)
  note nm = unknown_model_info(2)[OF assms]
  note ms = unknown_model_stage[OF assms, where env = env and message = message and w = w]
  show ?thesis
  proof (cases rule: dispatch_cases[of env ?ml ?se ?sy ?lmt ?m w])
    case (raise e w1)
    with c have "?call = (Inl e, w1)" by (simp add: call_ai_api_def)
    moreover have "\<not> general_message env message enable_search enable_system_commands
                      search_results_limit model_id w"
      using c raise(1) by (simp add: general_message_def)
    ultimately show ?thesis using raise(3) by (simp add: quiet_def)
  next
    case (answer a w1)
    with c have "?call = (Inr a, w1)" by (simp add: call_ai_api_def)
    moreover have "\<not> general_message env message enable_search enable_system_commands
                      search_results_limit model_id w"
      using c answer(1) by (simp add: general_message_def)
    moreover have "\<exists>s. a = s @ using_suffix ''Local Conversation Engine''"
      using answer(2) nm by (simp add: suffixed_by_def)
    ultimately show ?thesis using answer(3) by (simp add: quiet_def)
  next
    case general
    with c have call: "?call = (Inr (fst (model_stage env message ?m w)),
                               snd (model_stage env message ?m w))"
      by (simp add: call_ai_api_def case_prod_beta)
    have "\<exists>s. fst (model_stage env message ?m w) = s @ using_suffix ''Local Conversation Engine''"
      using ms by (simp add: suffixed_by_def)
    then show ?thesis using call ms by auto
  qed
qed

theorem unknown_model_answers_locally_witness:
  "map_of get_available_models ''no-such-model'' = None
   \<and> general_message (scripted_env (\<lambda>n m. http_ok ''Hi'') None True) ''hello'' None None None
       (Some ''no-such-model'') (start_world (2/10) (Some fresh_settings_manager))
   \<and> stored_errors fresh_settings_manager \<noteq> None
   \<and> fst (call_ai_api (scripted_env (\<lambda>n m. http_ok ''Hi'') None True) ''hello'' None None None
            (Some ''no-such-model'') (start_world (2/10) (Some fresh_settings_manager)))
       = Inr (''Hello! How can I assist you today?'' @ using_suffix ''Local Conversation Engine'')
   \<and> posts (snd (call_ai_api (scripted_env (\<lambda>n m. http_ok ''Hi'') None True) ''hello'' None None
                    None (Some ''no-such-model'') (start_world (2/10) (Some fresh_settings_manager))))
       = []"
proof -
  let ?env = "scripted_env (\<lambda>n m. http_ok ''Hi'') None True"
  let ?w = "start_world (2/10) (Some fresh_settings_manager)"
  let ?mid = "Some ''no-such-model''"
  have h1: "general_message ?env ''hello'' None None None ?mid ?w" by code_simp
  have k: "map_of get_available_models ''no-such-model'' = None" by code_simp
  have m: "selected_model ?mid ?w = ''no-such-model''" by (simp add: selected_model_def)
  have h2: "selected_model ?mid ?w \<notin> fst ` set get_available_models"
    using k unfolding m by (simp add: map_of_eq_None_iff)
  have s: "stored_errors fresh_settings_manager \<noteq> None" by (simp add: fresh_settings_manager_def)
  have h3: "\<forall>sm. settings_manager ?w = Some sm \<longrightarrow> stored_errors sm \<noteq> None"
    using s by (simp add: start_world_def)
  have v: "fst (generate_response ?env ''hello'' ?w) = ''Hello! How can I assist you today?''"
    by code_simp
  have p: "posts ?w = []" by (simp add: start_world_def)
  show ?thesis
    using h1 h3 k s v p
      unknown_model_answers_locally [OF h2, of ?env "''hello''" None None None]
    by simp
qed


text \<open>When the stored error dictionary is missing, clearing the error raises after the
  local responder has answered, and the generic answer is returned instead.\<close>

lemma missing_error_store_hides_local_answer:
  "fst (call_ai_api (scripted_env (\<lambda>n m. http_ok ''Hi'') None True) ''hello'' None None None
          (Some ''local_engine'')
          (start_world (2/10) (Some (fresh_settings_manager\<lparr>stored_errors := None\<rparr>))))
     = Inr (trouble_connecting ''Local Conversation Engine'')"
  by code_simp

end
